theory Spec2Isabelle
  imports Complex_Main
begin

section \<open>Numbers and arrays of the source language\<close>

text \<open>
  The bots compute with JavaScript numbers. They are modelled as real numbers: rounding of
  binary floating point is not represented, and neither are \<open>NaN\<close> and the infinities
  that a division by zero produces in the source. Theorems whose statement depends on a
  quotient therefore assume that the divisor is not zero (prices are positive).
\<close>

text \<open>\<open>Array.prototype.slice(start, end)\<close>: a negative index counts from the end,
  and both indices are brought into the range of the array.\<close>

definition slice_index :: "nat \<Rightarrow> int \<Rightarrow> nat" where
  "slice_index len k = (if k < 0 then nat (max (int len + k) 0) else min (nat k) len)"

definition slice :: "'a list \<Rightarrow> int \<Rightarrow> int \<Rightarrow> 'a list" where
  "slice xs s e =
     (let from = slice_index (length xs) s; to = slice_index (length xs) e
      in take (to - from) (drop from xs))"

text \<open>\<open>slice(start)\<close> with the end left out runs to the end of the array.\<close>

definition slice_from :: "'a list \<Rightarrow> int \<Rightarrow> 'a list" where
  "slice_from xs s = drop (slice_index (length xs) s) xs"

text \<open>\<open>xs.reduce((a, b) => a + b, 0)\<close>.\<close>

definition reduce_add :: "real list \<Rightarrow> real" where
  "reduce_add xs = foldl (\<lambda>a b. a + b) 0 xs"

text \<open>\<open>Number.parseFloat(x.toFixed(d))\<close>: the decimal with \<open>d\<close> fractional digits that
  is nearest to \<open>x\<close>, a tie going away from zero.\<close>

definition toFixed :: "nat \<Rightarrow> real \<Rightarrow> real" where
  "toFixed d x =
     (if x < 0 then - (real_of_int \<lfloor>- x * 10 ^ d + 1 / 2\<rfloor> / 10 ^ d)
      else real_of_int \<lfloor>x * 10 ^ d + 1 / 2\<rfloor> / 10 ^ d)"

text \<open>The truth value of a number that may be \<open>null\<close> or \<open>undefined\<close>: \<open>!x\<close> holds of
  a missing value and of zero.\<close>

fun truthy :: "real option \<Rightarrow> bool" where
  "truthy None = False"
| "truthy (Some v) = (v \<noteq> 0)"

text \<open>\<open>x || d\<close> on a configuration number: a missing field and a zero both give the default,
  so a missing field is represented by zero.\<close>

definition or_default :: "real \<Rightarrow> real \<Rightarrow> real" where
  "or_default x d = (if x = 0 then d else x)"

section \<open>The grid bots\<close>

text \<open>
  The repository holds three variants of the grid bot: class \<open>ProfitableGridTradingBot\<close>
  (second module of \<open>src/unnamed/part_000\<close>) and two copies of class
  \<open>EnhancedBybitGridBot\<close> (\<open>src/unnamed/part_001\<close> and \<open>src/server.js\<close>). Functions that
  are the same text in all three are modelled once; where the variants differ the model
  has one definition for each, with the class name as a suffix.
\<close>

datatype regime = BULL | BEAR | SIDEWAYS | VOLATILE | UNKNOWN

text \<open>The fields of \<open>CONFIG\<close> that the modelled functions read.\<close>

record grid_config =
  BASE_INVESTMENT :: real
  GRID_LEVELS :: nat
  GRID_SPACING :: real
  ATR_PERIOD :: nat
  ATR_MULTIPLIER :: real
  MIN_GRID_SPACING :: real
  MAX_GRID_SPACING :: real
  MAX_POSITION_SIZE :: real
  VOLATILITY_THRESHOLD :: real
  BULL_MARKET_THRESHOLD :: real
  BEAR_MARKET_THRESHOLD :: real

text \<open>One entry of \<open>this.gridLevels\<close>.\<close>

record grid_level =
  level :: nat
  buyPrice :: real
  sellPrice :: real
  quantity :: real
  active :: bool
  priceDistance :: real

text \<open>The fields of the bot object that the modelled functions read or write.\<close>

record bot =
  currentPrice :: real
  atr :: real
  priceHistory :: "real list"
  priceChangeBuffer :: "real list"
  volatilityIndex :: real
  marketCondition :: regime
  gridLevels :: "grid_level list"
  useDemo :: bool

text \<open>The constructor: the fields as they are before the first tick.\<close>

definition new_bot :: "bool \<Rightarrow> bot" where
  "new_bot demo =
     \<lparr>currentPrice = 0, atr = 0, priceHistory = [], priceChangeBuffer = [],
      volatilityIndex = 0, marketCondition = SIDEWAYS, gridLevels = [], useDemo = demo\<rparr>"

subsection \<open>Regime classification\<close>

text \<open>\<open>momentum\<close> as \<open>detectMarketCondition\<close> computes it from \<open>this.priceHistory\<close>.\<close>

definition momentum_of :: "real list \<Rightarrow> real" where
  "momentum_of hist =
     (let recent = slice_from hist (- 10);
          older = slice hist (- 20) (- 10);
          recentAvg = reduce_add recent / real (length recent);
          olderAvg = reduce_add older / real (length older)
      in (recentAvg - olderAvg) / olderAvg)"

text \<open>\<open>EnhancedBybitGridBot.detectMarketCondition\<close>: the value returned and the bot
  afterwards. With fewer than 20 samples it returns before any assignment.\<close>

definition detectMarketCondition :: "grid_config \<Rightarrow> bot \<Rightarrow> regime \<times> bot" where
  "detectMarketCondition cfg b =
     (if length (priceHistory b) < 20 then (UNKNOWN, b)
      else
        let momentum = momentum_of (priceHistory b);
            b' =
              (if momentum > BULL_MARKET_THRESHOLD cfg
                  \<and> volatilityIndex b < VOLATILITY_THRESHOLD cfg
               then b\<lparr>marketCondition := BULL\<rparr>
               else if momentum < BEAR_MARKET_THRESHOLD cfg
                  \<and> volatilityIndex b < VOLATILITY_THRESHOLD cfg
               then b\<lparr>marketCondition := BEAR\<rparr>
               else if volatilityIndex b > VOLATILITY_THRESHOLD cfg
               then b\<lparr>marketCondition := VOLATILE\<rparr>
               else b\<lparr>marketCondition := SIDEWAYS\<rparr>)
        in (marketCondition b', b'))"

text \<open>\<open>ProfitableGridTradingBot.detectMarketCondition\<close>: the same chain with the
  momentum thresholds written as the literals 0.02 and -0.02.\<close>

definition detectMarketCondition_Profitable :: "grid_config \<Rightarrow> bot \<Rightarrow> regime \<times> bot" where
  "detectMarketCondition_Profitable cfg b =
     (if length (priceHistory b) < 20 then (UNKNOWN, b)
      else
        let momentum = momentum_of (priceHistory b);
            b' =
              (if momentum > 2 / 100 \<and> volatilityIndex b < VOLATILITY_THRESHOLD cfg
               then b\<lparr>marketCondition := BULL\<rparr>
               else if momentum < - (2 / 100)
                  \<and> volatilityIndex b < VOLATILITY_THRESHOLD cfg
               then b\<lparr>marketCondition := BEAR\<rparr>
               else if volatilityIndex b > VOLATILITY_THRESHOLD cfg
               then b\<lparr>marketCondition := VOLATILE\<rparr>
               else b\<lparr>marketCondition := SIDEWAYS\<rparr>)
        in (marketCondition b', b'))"

text \<open>The decision table as the specification words it, for comparison with the code:
  the mean of a list, the momentum from the ten most recent samples and the ten before
  them, and the five rows in order.\<close>

definition mean :: "real list \<Rightarrow> real" where
  "mean xs = sum_list xs / real (length xs)"

definition spec_momentum :: "real list \<Rightarrow> real" where
  "spec_momentum hist =
     (mean (rev (take 10 (rev hist))) - mean (rev (take 10 (drop 10 (rev hist)))))
       / mean (rev (take 10 (drop 10 (rev hist))))"

fun spec_table :: "nat \<Rightarrow> real \<Rightarrow> real \<Rightarrow> real \<Rightarrow> real \<Rightarrow> real \<Rightarrow> regime" where
  "spec_table n m vol bull bear vthr =
     (if n < 20 then UNKNOWN
      else if m > bull \<and> vol < vthr then BULL
      else if m < bear \<and> vol < vthr then BEAR
      else if vol > vthr then VOLATILE
      else SIDEWAYS)"

subsection \<open>Average true range\<close>

datatype error = Error string

text \<open>A candle of the kline response: of the array the exchange returns for a candle the
  code reads the high (index 2), the low (index 3) and the close (index 4).\<close>

record kline =
  k_high :: real
  k_low :: real
  k_close :: real

text \<open>The response of \<open>getKline\<close>: \<open>retCode\<close> and \<open>result.list\<close>, which may be missing.\<close>

record kline_response =
  retCode :: int
  result_list :: "kline list option"

text \<open>\<open>calculateVolatilityIndex\<close>, the same text in the three variants.\<close>

definition calculateVolatilityIndex :: "bot \<Rightarrow> bot" where
  "calculateVolatilityIndex b =
     (if length (priceChangeBuffer b) < 10 then b
      else
        let variance = foldl (\<lambda>sum change. sum + change ^ 2) 0 (priceChangeBuffer b)
                         / real (length (priceChangeBuffer b))
        in b\<lparr>volatilityIndex := sqrt variance\<rparr>)"

text \<open>The loop \<open>for (let i = 1; i < klines.length; i++)\<close> that adds up the true ranges.\<close>

function trSumLoop :: "kline list \<Rightarrow> nat \<Rightarrow> real \<Rightarrow> real" where
  "trSumLoop klines i trSum =
     (if i < length klines then
        let high = k_high (klines ! i);
            low = k_low (klines ! i);
            prevClose = k_close (klines ! (i - 1));
            tr = max (max (high - low) \<bar>high - prevClose\<bar>) \<bar>low - prevClose\<bar>
        in trSumLoop klines (i + 1) (trSum + tr)
      else trSum)"
  by pat_completeness auto
termination
  by (relation "measure (\<lambda>(klines, i, trSum). length klines - i)") auto

declare trSumLoop.simps [simp del]

text \<open>The test \<open>retCode === 0 && result.list && result.list.length > CONFIG.ATR_PERIOD\<close>
  (an empty array is a true value).\<close>

definition enough_klines :: "grid_config \<Rightarrow> kline_response \<Rightarrow> bool" where
  "enough_klines cfg resp =
     (retCode resp = 0 \<and>
      (case result_list resp of None \<Rightarrow> False | Some l \<Rightarrow> length l > ATR_PERIOD cfg))"

text \<open>The average true range of one accepted response: the list is reversed to oldest
  first, the true ranges are added up and divided by \<open>ATR_PERIOD\<close>.\<close>

definition intervalATR :: "grid_config \<Rightarrow> kline_response \<Rightarrow> real" where
  "intervalATR cfg resp =
     (let klines = rev (case result_list resp of None \<Rightarrow> [] | Some l \<Rightarrow> l)
      in trSumLoop klines 1 0 / real (ATR_PERIOD cfg))"

text \<open>\<open>ProfitableGridTradingBot.calculateATR\<close>. The argument is what \<open>getKline\<close> gave:
  \<open>Inl\<close> when the call itself threw, the response otherwise. The result is \<open>Inl\<close> when
  the function throws; then \<open>this.atr\<close> has not been assigned.\<close>

definition calculateATR_Profitable ::
  "grid_config \<Rightarrow> error + kline_response \<Rightarrow> bot \<Rightarrow> error + real \<times> bot" where
  "calculateATR_Profitable cfg r b =
     (case r of
        Inl e \<Rightarrow> Inl e
      | Inr resp \<Rightarrow>
          if enough_klines cfg resp then
            let b' = calculateVolatilityIndex (b\<lparr>atr := intervalATR cfg resp\<rparr>)
            in Inr (atr b', b')
          else Inl (Error ''Invalid ATR data''))"

text \<open>The loop of \<open>EnhancedBybitGridBot.calculateATR\<close> over the intervals 1, 5 and 15: one
  \<open>getKline\<close> outcome for each interval; an interval whose call threw, or whose response
  fails the test, adds nothing.\<close>

fun atrIntervals ::
  "grid_config \<Rightarrow> (error + kline_response) list \<Rightarrow> real \<Rightarrow> nat \<Rightarrow> real \<times> nat" where
  "atrIntervals cfg [] atrSum validCalculations = (atrSum, validCalculations)"
| "atrIntervals cfg (Inl e # rs) atrSum validCalculations =
     atrIntervals cfg rs atrSum validCalculations"
| "atrIntervals cfg (Inr resp # rs) atrSum validCalculations =
     (if enough_klines cfg resp
      then atrIntervals cfg rs (atrSum + intervalATR cfg resp) (validCalculations + 1)
      else atrIntervals cfg rs atrSum validCalculations)"

text \<open>\<open>EnhancedBybitGridBot.calculateATR\<close> of \<open>src/unnamed/part_001\<close>: the error of the
  inner \<open>throw\<close> is logged and thrown again.\<close>

definition calculateATR ::
  "grid_config \<Rightarrow> (error + kline_response) list \<Rightarrow> bot \<Rightarrow> error + real \<times> bot" where
  "calculateATR cfg rs b =
     (case atrIntervals cfg rs 0 0 of
        (atrSum, validCalculations) \<Rightarrow>
          if validCalculations > 0 then
            let b' = calculateVolatilityIndex (b\<lparr>atr := atrSum / real validCalculations\<rparr>)
            in Inr (atr b', b')
          else Inl (Error ''No valid ATR calculations''))"

text \<open>\<open>Math.max(...xs)\<close> and \<open>Math.min(...xs)\<close> of a non-empty array.\<close>

fun max_of :: "real list \<Rightarrow> real" where
  "max_of [] = 0"
| "max_of (x # xs) = foldl max x xs"

fun min_of :: "real list \<Rightarrow> real" where
  "min_of [] = 0"
| "min_of (x # xs) = foldl min x xs"

text \<open>\<open>calculateDemoATR\<close> of \<open>src/server.js\<close>. (The spread of an empty array does not
  occur: the branch that takes the maximum has at least ten prices.)\<close>

definition calculateDemoATR :: "bot \<Rightarrow> real \<times> bot" where
  "calculateDemoATR b =
     (let b1 =
        (if length (priceHistory b) \<ge> 10 then
           let recentPrices = slice_from (priceHistory b) (- 10);
               maxPrice = max_of recentPrices;
               minPrice = min_of recentPrices
           in b\<lparr>atr := (maxPrice - minPrice) / 2\<rparr>
         else b\<lparr>atr := currentPrice b * (1 / 100)\<rparr>);
          b2 = calculateVolatilityIndex b1
      in (atr b2, b2))"

text \<open>\<open>EnhancedBybitGridBot.calculateATR\<close> of \<open>src/server.js\<close>: in demo mode, and
  whenever the computation from the klines throws, the result is that of
  \<open>calculateDemoATR\<close>; this variant never throws.\<close>

definition calculateATR_server ::
  "grid_config \<Rightarrow> (error + kline_response) list \<Rightarrow> bot \<Rightarrow> real \<times> bot" where
  "calculateATR_server cfg rs b =
     (if useDemo b then calculateDemoATR b
      else
        case atrIntervals cfg rs 0 0 of
          (atrSum, validCalculations) \<Rightarrow>
            if validCalculations > 0 then
              let b' = calculateVolatilityIndex (b\<lparr>atr := atrSum / real validCalculations\<rparr>)
              in (atr b', b')
            else calculateDemoATR b)"

subsection \<open>Grid spacing, order quantity and grid levels\<close>

text \<open>\<open>ProfitableGridTradingBot.calculateDynamicGridSpacing\<close>. A \<open>switch\<close> without a
  default leaves the spacing as it is for a regime that has no case.\<close>

definition calculateDynamicGridSpacing_Profitable :: "grid_config \<Rightarrow> bot \<Rightarrow> real" where
  "calculateDynamicGridSpacing_Profitable cfg b =
     (if atr b = 0 \<or> currentPrice b = 0 then GRID_SPACING cfg
      else
        let spacing0 = max (MIN_GRID_SPACING cfg)
                         (min (MAX_GRID_SPACING cfg) ((atr b / currentPrice b) * (8 / 10)));
            spacing1 =
              (case marketCondition b of
                 BULL \<Rightarrow> spacing0 * (12 / 10)
               | BEAR \<Rightarrow> spacing0 * (9 / 10)
               | VOLATILE \<Rightarrow> spacing0 * (15 / 10)
               | SIDEWAYS \<Rightarrow> spacing0 * 1
               | UNKNOWN \<Rightarrow> spacing0)
        in max (MIN_GRID_SPACING cfg) (min (MAX_GRID_SPACING cfg) spacing1))"

text \<open>\<open>EnhancedBybitGridBot.calculateDynamicGridSpacing\<close> (both copies).\<close>

definition calculateDynamicGridSpacing :: "grid_config \<Rightarrow> bot \<Rightarrow> real" where
  "calculateDynamicGridSpacing cfg b =
     (if atr b = 0 \<or> currentPrice b = 0 then MIN_GRID_SPACING cfg
      else
        let atrPercentage = atr b / currentPrice b;
            spacing0 = max (MIN_GRID_SPACING cfg)
                         (min (MAX_GRID_SPACING cfg) (atrPercentage * (8 / 10)));
            spacing1 =
              (case marketCondition b of
                 BULL \<Rightarrow> spacing0 * (13 / 10)
               | BEAR \<Rightarrow> spacing0 * (9 / 10)
               | VOLATILE \<Rightarrow> spacing0 * (15 / 10)
               | SIDEWAYS \<Rightarrow> spacing0 * (8 / 10)
               | UNKNOWN \<Rightarrow> spacing0);
            spacing2 =
              (if volatilityIndex b > 1 / 100
               then spacing1 * (1 + volatilityIndex b * 10) else spacing1)
        in max (MIN_GRID_SPACING cfg) (min (MAX_GRID_SPACING cfg) spacing2))"

text \<open>\<open>calculateOrderQuantity\<close>, the same text in the three variants.\<close>

definition calculateOrderQuantity :: "grid_config \<Rightarrow> bot \<Rightarrow> real \<Rightarrow> real" where
  "calculateOrderQuantity cfg b price =
     (let baseQuantity = BASE_INVESTMENT cfg / real (GRID_LEVELS cfg) / price;
          maxQuantity = (BASE_INVESTMENT cfg * MAX_POSITION_SIZE cfg) / price;
          adjustedQuantity0 = min baseQuantity maxQuantity;
          adjustedQuantity =
            (case marketCondition b of
               VOLATILE \<Rightarrow> adjustedQuantity0 * (7 / 10)
             | BULL \<Rightarrow> adjustedQuantity0 * (11 / 10)
             | BEAR \<Rightarrow> adjustedQuantity0 * (9 / 10)
             | _ \<Rightarrow> adjustedQuantity0)
      in max adjustedQuantity (1 / 1000))"

text \<open>The loop of \<open>generateGridLevels\<close> over \<open>i = 0, \<dots>, GRID_LEVELS - 1\<close>, with the
  spacing that was computed before the loop; \<open>continue\<close> skips the \<open>push\<close>.\<close>

function gridLoop ::
  "grid_config \<Rightarrow> bot \<Rightarrow> real \<Rightarrow> nat \<Rightarrow> grid_level list \<Rightarrow> grid_level list" where
  "gridLoop cfg b spacing i levels =
     (if i < GRID_LEVELS cfg then
        let centerPrice = currentPrice b;
            atrRange = atr b * ATR_MULTIPLIER cfg;
            upperBound = centerPrice + atrRange;
            lowerBound = centerPrice - atrRange;
            priceRange = upperBound - lowerBound;
            levelSpacing = priceRange / real (GRID_LEVELS cfg);
            buyPrice = lowerBound + levelSpacing * real i;
            sellPrice = buyPrice * (1 + spacing);
            quantity = calculateOrderQuantity cfg b buyPrice;
            priceDistance = \<bar>buyPrice - centerPrice\<bar> / centerPrice
        in if priceDistance < spacing * (5 / 10) then gridLoop cfg b spacing (i + 1) levels
           else gridLoop cfg b spacing (i + 1)
                  (levels @
                   [\<lparr>level = i, buyPrice = toFixed 6 buyPrice, sellPrice = toFixed 6 sellPrice,
                     quantity = toFixed 8 quantity, active = False,
                     priceDistance = priceDistance\<rparr>])
      else levels)"
  by pat_completeness auto
termination
  by (relation "measure (\<lambda>(cfg, b, spacing, i, levels). GRID_LEVELS cfg - i)") auto

declare gridLoop.simps [simp del]

text \<open>\<open>generateGridLevels\<close>: the loop, then
  \<open>sort((a, b) => a.priceDistance - b.priceDistance)\<close>, a stable sort in ascending order
  of \<open>priceDistance\<close>. The result is stored in \<open>this.gridLevels\<close> and returned.\<close>

definition generateGridLevels_Profitable :: "grid_config \<Rightarrow> bot \<Rightarrow> grid_level list \<times> bot" where
  "generateGridLevels_Profitable cfg b =
     (let spacing = calculateDynamicGridSpacing_Profitable cfg b;
          b' = b\<lparr>gridLevels := sort_key priceDistance (gridLoop cfg b spacing 0 [])\<rparr>
      in (gridLevels b', b'))"

definition generateGridLevels :: "grid_config \<Rightarrow> bot \<Rightarrow> grid_level list \<times> bot" where
  "generateGridLevels cfg b =
     (let spacing = calculateDynamicGridSpacing cfg b;
          b' = b\<lparr>gridLevels := sort_key priceDistance (gridLoop cfg b spacing 0 [])\<rparr>
      in (gridLevels b', b'))"

subsection \<open>The configurations in the source\<close>

text \<open>\<open>CONFIG\<close> of \<open>ProfitableGridTradingBot\<close>; it has no momentum thresholds (the
  classifier of that class uses literals), the two fields hold the same values here.\<close>

definition CONFIG_Profitable :: grid_config where
  "CONFIG_Profitable =
     \<lparr>BASE_INVESTMENT = 1000, GRID_LEVELS = 12, GRID_SPACING = 7 / 1000, ATR_PERIOD = 14,
      ATR_MULTIPLIER = 17 / 10, MIN_GRID_SPACING = 4 / 1000, MAX_GRID_SPACING = 25 / 1000,
      MAX_POSITION_SIZE = 9 / 100, VOLATILITY_THRESHOLD = 18 / 1000,
      BULL_MARKET_THRESHOLD = 2 / 100, BEAR_MARKET_THRESHOLD = - (2 / 100)\<rparr>"

text \<open>\<open>CONFIG\<close> of \<open>EnhancedBybitGridBot\<close> (the same values in both copies); it has no
  \<open>GRID_SPACING\<close>, which that class does not read.\<close>

definition CONFIG_Enhanced :: grid_config where
  "CONFIG_Enhanced =
     \<lparr>BASE_INVESTMENT = 1000, GRID_LEVELS = 15, GRID_SPACING = 0, ATR_PERIOD = 14,
      ATR_MULTIPLIER = 15 / 10, MIN_GRID_SPACING = 3 / 1000, MAX_GRID_SPACING = 25 / 1000,
      MAX_POSITION_SIZE = 8 / 100, VOLATILITY_THRESHOLD = 2 / 100,
      BULL_MARKET_THRESHOLD = 2 / 100, BEAR_MARKET_THRESHOLD = - (2 / 100)\<rparr>"

text \<open>A price history used in the examples: ten samples at 100, then ten at 103.\<close>

definition bull_history :: "real list" where
  "bull_history = replicate 10 100 @ replicate 10 103"

subsection \<open>Price updates and runs of the bot\<close>

text \<open>\<open>getCurrentPrice\<close> of \<open>ProfitableGridTradingBot\<close>. The argument is the last price of
  a valid ticker response, or \<open>None\<close> when the response is not valid and the function
  throws.\<close>

definition getCurrentPrice :: "real option \<Rightarrow> bot \<Rightarrow> error + bot" where
  "getCurrentPrice r b =
     (case r of
        None \<Rightarrow> Inl (Error ''Invalid price data'')
      | Some newPrice \<Rightarrow>
          let b1 =
                (if currentPrice b > 0 then
                   let priceChange = (newPrice - currentPrice b) / currentPrice b;
                       pushed = priceChangeBuffer b @ [priceChange]
                   in b\<lparr>priceChangeBuffer := (if length pushed > 20 then tl pushed else pushed)\<rparr>
                 else b);
              b2 = b1\<lparr>currentPrice := newPrice\<rparr>;
              pushed = priceHistory b2 @ [newPrice]
          in Inr (b2\<lparr>priceHistory := (if length pushed > 200 then tl pushed else pushed)\<rparr>))"

text \<open>The methods of the bot that read or write the modelled fields, as operations with
  their inputs from the exchange. A method that throws leaves the bot as it is (the loop
  in \<open>start\<close> catches the error and goes on).\<close>

datatype bot_op =
    Price "real option"
  | ATR_Profitable "error + kline_response"
  | ATR "(error + kline_response) list"
  | ATR_server "(error + kline_response) list"
  | Detect
  | Detect_Profitable
  | Generate
  | Generate_Profitable

fun step :: "grid_config \<Rightarrow> bot \<Rightarrow> bot_op \<Rightarrow> bot" where
  "step cfg b (Price r) = (case getCurrentPrice r b of Inl e \<Rightarrow> b | Inr b' \<Rightarrow> b')"
| "step cfg b (ATR_Profitable r) =
     (case calculateATR_Profitable cfg r b of Inl e \<Rightarrow> b | Inr (a, b') \<Rightarrow> b')"
| "step cfg b (ATR rs) = (case calculateATR cfg rs b of Inl e \<Rightarrow> b | Inr (a, b') \<Rightarrow> b')"
| "step cfg b (ATR_server rs) = snd (calculateATR_server cfg rs b)"
| "step cfg b Detect = snd (detectMarketCondition cfg b)"
| "step cfg b Detect_Profitable = snd (detectMarketCondition_Profitable cfg b)"
| "step cfg b Generate = snd (generateGridLevels cfg b)"
| "step cfg b Generate_Profitable = snd (generateGridLevels_Profitable cfg b)"

definition run_ops :: "grid_config \<Rightarrow> bot \<Rightarrow> bot_op list \<Rightarrow> bot" where
  "run_ops cfg b ops = foldl (step cfg) b ops"

subsection \<open>The formulas of the specification\<close>

text \<open>\<open>clamp(x, lo, hi)\<close>.\<close>

definition clamp :: "real \<Rightarrow> real \<Rightarrow> real \<Rightarrow> real" where
  "clamp x lo hi = (if x < lo then lo else if hi < x then hi else x)"

text \<open>The spacing as the specification gives it:
  \<open>clamp(ATR/price \<times> 0.8, minSpacing, maxSpacing)\<close> scaled by a multiplier.\<close>

definition spec_spacing :: "real \<Rightarrow> real \<Rightarrow> real \<Rightarrow> real \<Rightarrow> real \<Rightarrow> real" where
  "spec_spacing a price lo hi mult = clamp (a / price * (8 / 10)) lo hi * mult"

text \<open>The multipliers that the two classes apply to the spacing, by regime.\<close>

fun spacing_multiplier_Profitable :: "regime \<Rightarrow> real" where
  "spacing_multiplier_Profitable BULL = 12 / 10"
| "spacing_multiplier_Profitable BEAR = 9 / 10"
| "spacing_multiplier_Profitable VOLATILE = 15 / 10"
| "spacing_multiplier_Profitable SIDEWAYS = 1"
| "spacing_multiplier_Profitable UNKNOWN = 1"

fun spacing_multiplier :: "regime \<Rightarrow> real" where
  "spacing_multiplier BULL = 13 / 10"
| "spacing_multiplier BEAR = 9 / 10"
| "spacing_multiplier VOLATILE = 15 / 10"
| "spacing_multiplier SIDEWAYS = 8 / 10"
| "spacing_multiplier UNKNOWN = 1"

text \<open>The further factor of \<open>EnhancedBybitGridBot\<close> for a volatility index above 0.01.\<close>

definition volatility_boost :: "real \<Rightarrow> real" where
  "volatility_boost vol = (if vol > 1 / 100 then 1 + vol * 10 else 1)"

text \<open>The quantity as the specification gives it:
  \<open>min(baseInvestment/levels/price, baseInvestment \<times> maxPositionFraction/price)\<close>, times a
  multiplier, not below the minimum lot.\<close>

definition spec_quantity :: "real \<Rightarrow> nat \<Rightarrow> real \<Rightarrow> real \<Rightarrow> real \<Rightarrow> real \<Rightarrow> real" where
  "spec_quantity base levels fraction price mult lot =
     max (min (base / real levels / price) (base * fraction / price) * mult) lot"

text \<open>The multipliers that \<open>calculateOrderQuantity\<close> applies, by regime.\<close>

fun quantity_multiplier :: "regime \<Rightarrow> real" where
  "quantity_multiplier VOLATILE = 7 / 10"
| "quantity_multiplier BULL = 11 / 10"
| "quantity_multiplier BEAR = 9 / 10"
| "quantity_multiplier SIDEWAYS = 1"
| "quantity_multiplier UNKNOWN = 1"

text \<open>A bot in a volatile market with ATR 2000 at price 50000, used in the examples.\<close>

definition volatile_bot :: bot where
  "volatile_bot = (new_bot False)\<lparr>currentPrice := 50000, atr := 2000, marketCondition := VOLATILE\<rparr>"

subsection \<open>Words of the specification for the ATR and the grid\<close>

text \<open>The number of bars of a response (none when the list is missing), and a
  \<open>getKline\<close> outcome with fewer than \<open>ATR_PERIOD + 1\<close> bars (a failed call has none).\<close>

definition bars :: "kline_response \<Rightarrow> nat" where
  "bars resp = (case result_list resp of None \<Rightarrow> 0 | Some l \<Rightarrow> length l)"

fun few_bars :: "grid_config \<Rightarrow> error + kline_response \<Rightarrow> bool" where
  "few_bars cfg (Inl e) = True"
| "few_bars cfg (Inr resp) = (bars resp < ATR_PERIOD cfg + 1)"

text \<open>The buy price of step \<open>i\<close> when the interval from \<open>price - ATR \<times> multiplier\<close> to
  \<open>price + ATR \<times> multiplier\<close> is divided into \<open>GRID_LEVELS\<close> equal steps, and its
  distance from the centre price relative to the centre price.\<close>

definition step_price :: "grid_config \<Rightarrow> bot \<Rightarrow> nat \<Rightarrow> real" where
  "step_price cfg b i =
     (currentPrice b - atr b * ATR_MULTIPLIER cfg)
     + real i * (((currentPrice b + atr b * ATR_MULTIPLIER cfg)
                  - (currentPrice b - atr b * ATR_MULTIPLIER cfg)) / real (GRID_LEVELS cfg))"

definition rel_distance :: "grid_config \<Rightarrow> bot \<Rightarrow> nat \<Rightarrow> real" where
  "rel_distance cfg b i = \<bar>step_price cfg b i - currentPrice b\<bar> / currentPrice b"

text \<open>What a generated grid is, for a spacing \<open>s\<close>: the levels are in ascending order of
  their distance from the centre; their indices are, without repetition, the steps whose
  relative distance is not below half the spacing; and a level stores the buy price of its
  step and that price times \<open>1 + s\<close>, each with six decimals, together with the distance
  of the step.\<close>

definition is_grid :: "grid_config \<Rightarrow> bot \<Rightarrow> real \<Rightarrow> grid_level list \<Rightarrow> bool" where
  "is_grid cfg b s ls =
     (sorted (map priceDistance ls)
      \<and> distinct (map level ls)
      \<and> set (map level ls) =
          set (filter (\<lambda>i. \<not> rel_distance cfg b i < s * (5 / 10)) [0..<GRID_LEVELS cfg])
      \<and> (\<forall>l \<in> set ls.
            buyPrice l = toFixed 6 (step_price cfg b (level l))
            \<and> sellPrice l = toFixed 6 (step_price cfg b (level l) * (1 + s))
            \<and> priceDistance l = rel_distance cfg b (level l)))"

text \<open>Inputs used in the examples: a response with three bars, a bot of the live variant
  that has seen the price 50000 once, and a bot in a sideways market with ATR 1 at price
  100.\<close>

definition three_bars :: kline_response where
  "three_bars =
     \<lparr>retCode = 0,
      result_list = Some [\<lparr>k_high = 3, k_low = 1, k_close = 2\<rparr>,
                          \<lparr>k_high = 4, k_low = 2, k_close = 3\<rparr>,
                          \<lparr>k_high = 5, k_low = 3, k_close = 4\<rparr>]\<rparr>"

definition fresh_bot :: bot where
  "fresh_bot = (new_bot False)\<lparr>currentPrice := 50000, priceHistory := [50000]\<rparr>"

definition calm_bot :: bot where
  "calm_bot = (new_bot False)\<lparr>currentPrice := 100, atr := 1\<rparr>"

text \<open>The entry that the loop of \<open>generateGridLevels\<close> pushes for step \<open>i\<close>.\<close>

definition mk_level :: "grid_config \<Rightarrow> bot \<Rightarrow> real \<Rightarrow> nat \<Rightarrow> grid_level" where
  "mk_level cfg b s i =
     \<lparr>level = i, buyPrice = toFixed 6 (step_price cfg b i),
      sellPrice = toFixed 6 (step_price cfg b i * (1 + s)),
      quantity = toFixed 8 (calculateOrderQuantity cfg b (step_price cfg b i)),
      active = False, priceDistance = rel_distance cfg b i\<rparr>"

section \<open>The hedging bot\<close>

text \<open>
  The first module of \<open>src/unnamed/part_000\<close>: per symbol a main position
  (\<open>state.openTrade\<close>) and a hedge (\<open>state.hedgeTrade\<close>), managed by \<open>mainLoop\<close> on a timer and
  closed by \<open>closeTrade\<close>. The model follows one symbol. Calls to the exchange are the only
  effect whose outcome the code depends on: the environment says for each order request,
  by its number in the run, whether the exchange accepts it; a request that is not
  accepted makes \<open>placeOrder\<close> throw. Requests and alerts are logged in the order in which
  they are made. Writing the state file (\<open>saveSymbolState\<close>) and sending the alert to
  Telegram do not change the state in memory and are not represented; neither is the case
  that two runs of \<open>mainLoop\<close> overlap in time.
\<close>

text \<open>The strings that the \<open>side\<close> of a trade takes: \<open>'long'\<close> and \<open>'short'\<close> from the entry
  signal, \<open>'sell'\<close> and \<open>'buy'\<close> for a hedge (\<open>hedgeSide.toLowerCase()\<close>).\<close>

datatype side = Long | Short | Buy | Sell

text \<open>The side of an order request, \<open>'BUY'\<close> or \<open>'SELL'\<close>.\<close>

datatype order_side = BUY | SELL

text \<open>A position; \<open>trade_size\<close> is its field \<open>size\<close>. \<open>openTime\<close> and \<open>orderId\<close>, which
  no decision reads, are left out; a field that the object does not have yet is \<open>None\<close>.\<close>

record trade =
  side :: side
  entryPx :: real
  trade_size :: real
  isHedge :: bool
  stopLossPrice :: "real option"
  maxPrice :: "real option"
  minPrice :: "real option"

datatype trade_type = TMain | THedge

text \<open>The close reasons \<open>'MAIN_TP_50%'\<close>, \<open>'MAIN_SL_HIT'\<close>, \<open>'HEDGE_SL_HIT'\<close> and
  \<open>'MAIN_CLOSED'\<close>.\<close>

datatype close_reason = MAIN_TP_50 | MAIN_SL_HIT | HEDGE_SL_HIT | MAIN_CLOSED

text \<open>An entry of \<open>state.trades\<close>: the trade with the fields that \<open>closeTrade\<close> adds
  (\<open>closeTime\<close> is left out).\<close>

record trade_record =
  closed_trade :: trade
  tradeType :: trade_type
  closeReason :: close_reason
  exitPrice :: real
  profitPct :: real

record order_request =
  order_side :: order_side
  qty :: real

text \<open>The first argument of \<open>sendTradeAlert\<close>; an alert is logged with it and its title.\<close>

datatype alert_type = AOpen | AClose | AHedge | AWarn | AError | AGridmove | AInfo

text \<open>The state of a symbol, \<open>symbolStates[sym]\<close>, as it is kept in memory and written to
  \<open>state_<sym>.json\<close>. The field \<open>performance\<close>, which no decision reads, is left out.\<close>

record symbol_state =
  openTrade :: "trade option"
  hedgeTrade :: "trade option"
  trades :: "trade_record list"
  gridAnchor :: "real option"
  activeGrid :: "real list"
  lastGridMovePx :: "real option"

text \<open>The state of a symbol with the log of the order requests (each with the answer of
  the exchange) and of the alerts.\<close>

record world = symbol_state +
  requests :: "(order_request \<times> bool) list"
  alerts :: "(alert_type \<times> string) list"

text \<open>The fields of \<open>config.SYMBOLS[sym]\<close>. The fields read with \<open>|| default\<close> are zero
  when they are missing.\<close>

record symbol_config =
  GRID_TRAIL_THRESHOLD :: real
  CAPITAL :: real
  RISK_PERCENT :: real
  LEVERAGE :: real
  GRID_STEPS :: nat
  SYMBOL_GRID_SPACING :: real
  HEDGE_LOSS_PERCENT :: real
  HEDGE_TP_PERCENT :: real
  HEDGE_SL_PERCENT :: real
  MAIN_TP_PERCENT :: real
  MAIN_PROTECTION_START :: real
  MAIN_PROTECTION_PERCENT :: real

text \<open>\<open>isRealTrade\<close> (not demo mode, and both API credentials set), and the answers of the
  exchange.\<close>

record environment =
  isRealTrade :: bool
  accept :: "nat \<Rightarrow> bool"

text \<open>What a tick sees of the market: the close of the last candle, and the signal of
  \<open>multiFactorEntry\<close>, which comes from the indicator library.\<close>

record observation =
  lastPx :: real
  signal :: "side option"

definition MIN_LOT_SIZES :: "string \<Rightarrow> real option" where
  "MIN_LOT_SIZES =
     map_of [(''BTCUSDT'', 1 / 1000), (''ETHUSDT'', 1 / 100), (''SOLUSDT'', 1 / 10),
             (''XRPUSDT'', 20), (''BNBUSDT'', 7 / 100)]"

definition DEFAULT_MIN_LOT :: real where
  "DEFAULT_MIN_LOT = 1 / 1000"

text \<open>\<open>loadSymbolState(sym)\<close>. The first argument is the content of \<open>state_<sym>.json\<close>, or
  \<open>None\<close> when the file does not exist or does not parse: a state file is returned as it
  is, whatever its slots hold. Without it the state is built from the files of the old
  layout (the second and third argument: the content of \<open>trades_<sym>.json\<close>, empty when
  there is none, and of \<open>open_trade_<sym>.json\<close>), with an empty hedge slot. The logs start
  empty.\<close>

definition loadSymbolState ::
  "symbol_state option \<Rightarrow> trade_record list \<Rightarrow> trade option \<Rightarrow> world" where
  "loadSymbolState state_file old_trades old_openTrade =
     (case state_file of
        Some st \<Rightarrow>
          \<lparr>openTrade = openTrade st, hedgeTrade = hedgeTrade st, trades = trades st,
           gridAnchor = gridAnchor st, activeGrid = activeGrid st,
           lastGridMovePx = lastGridMovePx st, requests = [], alerts = []\<rparr>
      | None \<Rightarrow>
          \<lparr>openTrade = old_openTrade, hedgeTrade = None, trades = old_trades,
           gridAnchor = None, activeGrid = [], lastGridMovePx = None, requests = [],
           alerts = []\<rparr>)"

text \<open>\<open>sendTradeAlert(type, sym, event, details)\<close>.\<close>

definition sendTradeAlert :: "alert_type \<Rightarrow> string \<Rightarrow> world \<Rightarrow> world" where
  "sendTradeAlert ty event w = w\<lparr>alerts := alerts w @ [(ty, event)]\<rparr>"

text \<open>\<open>placeOrder\<close>: the request is logged with the answer; \<open>False\<close> stands for the error
  thrown.\<close>

definition placeOrder :: "environment \<Rightarrow> order_side \<Rightarrow> real \<Rightarrow> world \<Rightarrow> bool \<times> world" where
  "placeOrder env sd q w =
     (let ok = accept env (length (requests w))
      in (ok, w\<lparr>requests := requests w @ [(\<lparr>order_side = sd, qty = q\<rparr>, ok)]\<rparr>))"

definition closeOrder :: "environment \<Rightarrow> order_side \<Rightarrow> real \<Rightarrow> world \<Rightarrow> bool \<times> world" where
  "closeOrder env openSide q w =
     (let closeSide = (if openSide = BUY then SELL else BUY)
      in placeOrder env closeSide q w)"

text \<open>The profit in percent as the code computes it in three places: the formula of a
  long position for the side \<open>'long'\<close>, that of a short position for every other side.\<close>

definition profit_percent :: "side \<Rightarrow> real \<Rightarrow> real \<Rightarrow> real" where
  "profit_percent sd entry px =
     (if sd = Long then ((px - entry) / entry) * 100 else ((entry - px) / entry) * 100)"

text \<open>\<open>closeTrade(sym, closeReason, exitPrice, tradeType)\<close>: the value returned and the
  state afterwards. Closing the main trade calls the function again for the hedge. (The
  parameters are \<open>reason\<close>, \<open>exitPx\<close> and \<open>tt\<close> here, the local \<open>profitPct\<close> is \<open>pct\<close>.)\<close>

function closeTrade ::
  "environment \<Rightarrow> close_reason \<Rightarrow> real \<Rightarrow> trade_type \<Rightarrow> world \<Rightarrow> bool \<times> world" where
  "closeTrade env reason exitPx tt w =
     (case (if tt = TMain then openTrade w else hedgeTrade w) of
        None \<Rightarrow> (False, w)
      | Some trade \<Rightarrow>
          let pct = profit_percent (side trade) (entryPx trade) exitPx;
              sent = (if isRealTrade env
                      then closeOrder env (if side trade = Long then BUY else SELL)
                             (trade_size trade) w
                      else (True, w))
          in if \<not> fst sent then
               (False,
                sendTradeAlert AError
                  (if tt = TMain then ''Close main Failed'' else ''Close hedge Failed'')
                  (snd sent))
             else
               let w1 = (snd sent)\<lparr>trades := trades (snd sent) @
                           [\<lparr>closed_trade = trade, tradeType = tt, closeReason = reason,
                             exitPrice = exitPx, profitPct = pct\<rparr>]\<rparr>;
                   w2 = (if tt = TMain then
                           let w' = w1\<lparr>openTrade := None\<rparr>
                           in if hedgeTrade w' \<noteq> None
                              then snd (closeTrade env MAIN_CLOSED exitPx THedge w')
                              else w'
                         else w1\<lparr>hedgeTrade := None\<rparr>)
               in (True,
                   sendTradeAlert AClose
                     (if tt = TMain then ''MAIN Position Closed'' else ''HEDGE Position Closed'')
                     w2))"
  by pat_completeness auto
termination
  by (relation "measure (\<lambda>(env, reason, exitPx, tt, w). if tt = TMain then 1 else 0)")
    auto

declare closeTrade.simps [simp del]

text \<open>\<open>recalcGrid(anchorPx, config)\<close>.\<close>

definition recalcGrid :: "real \<Rightarrow> symbol_config \<Rightarrow> real list" where
  "recalcGrid anchorPx cfg =
     (let gridLevels = (if GRID_STEPS cfg = 0 then 5 else GRID_STEPS cfg);
          spacing = or_default (SYMBOL_GRID_SPACING cfg) (3 / 1000)
      in map (\<lambda>i. let index = int i - int (gridLevels div 2)
                   in toFixed 2 (anchorPx * (1 + real_of_int index * spacing)))
           [0..<gridLevels])"

text \<open>The section "Grid Management" of the loop body.\<close>

definition gridManagement :: "symbol_config \<Rightarrow> real \<Rightarrow> world \<Rightarrow> world" where
  "gridManagement cfg px w =
     (if \<not> truthy (gridAnchor w) \<or>
         (case gridAnchor w of
            None \<Rightarrow> False
          | Some anchor \<Rightarrow>
              \<bar>px / anchor - 1\<bar> > or_default (GRID_TRAIL_THRESHOLD cfg) (1 / 100))
      then sendTradeAlert AGridmove ''Grid Updated''
             (w\<lparr>gridAnchor := Some px, activeGrid := recalcGrid px cfg,
                lastGridMovePx := Some px\<rparr>)
      else w)"

text \<open>The size that the entry computes before the minimum lot is applied, and the
  minimum lot of the symbol.\<close>

definition sizeTotal :: "symbol_config \<Rightarrow> real \<Rightarrow> real" where
  "sizeTotal cfg px =
     (let capital = or_default (CAPITAL cfg) 1000;
          riskPercent = or_default (RISK_PERCENT cfg) 1;
          leverage = or_default (LEVERAGE cfg) 1
      in (capital * riskPercent / 100) * leverage / px)"

definition minLot :: "string \<Rightarrow> real" where
  "minLot symb =
     (case MIN_LOT_SIZES symb of
        None \<Rightarrow> DEFAULT_MIN_LOT
      | Some v \<Rightarrow> or_default v DEFAULT_MIN_LOT)"

text \<open>The section "Trade Entry Logic", taken when \<open>state.openTrade\<close> is empty.\<close>

definition tradeEntry ::
  "environment \<Rightarrow> string \<Rightarrow> symbol_config \<Rightarrow> observation \<Rightarrow> world \<Rightarrow> world" where
  "tradeEntry env symb cfg ob w =
     (case signal ob of
        None \<Rightarrow> w
      | Some sg \<Rightarrow>
          let below = sizeTotal cfg (lastPx ob) < minLot symb;
              w1 = (if below then sendTradeAlert AWarn ''Lot size below minimum'' w else w);
              sz = (if below then minLot symb else sizeTotal cfg (lastPx ob));
              sent = (if isRealTrade env
                      then placeOrder env (if sg = Long then BUY else SELL) sz w1
                      else (True, w1))
          in if fst sent then
               sendTradeAlert AOpen
                 (if isRealTrade env then ''Position Opened (REAL)''
                  else ''Position Opened (DEMO)'')
                 ((snd sent)\<lparr>openTrade :=
                     Some \<lparr>side = sg, entryPx = lastPx ob, trade_size = sz, isHedge = False,
                           stopLossPrice = None, maxPrice = None, minPrice = None\<rparr>\<rparr>)
             else sendTradeAlert AError ''Entry Failed'' (snd sent))"

text \<open>The start of the section "Trade Management Logic": the price extremes of the main
  trade.\<close>

definition trackExtremes :: "real \<Rightarrow> trade \<Rightarrow> trade" where
  "trackExtremes px t =
     (let t1 = (if \<not> truthy (maxPrice t) then t\<lparr>maxPrice := Some (entryPx t)\<rparr> else t);
          t2 = (if \<not> truthy (minPrice t1) then t1\<lparr>minPrice := Some (entryPx t1)\<rparr> else t1)
      in if side t2 = Long \<and> (case maxPrice t2 of None \<Rightarrow> False | Some m \<Rightarrow> px > m)
         then t2\<lparr>maxPrice := Some px\<rparr>
         else if side t2 = Short \<and> (case minPrice t2 of None \<Rightarrow> False | Some m \<Rightarrow> px < m)
         then t2\<lparr>minPrice := Some px\<rparr>
         else t2)"

text \<open>The section "Hedging Logic": a hedge of the size of the main trade is opened on the
  other side when there is none and the loss has reached \<open>HEDGE_LOSS_PERCENT\<close>.\<close>

definition hedgingLogic ::
  "environment \<Rightarrow> symbol_config \<Rightarrow> real \<Rightarrow> trade \<Rightarrow> real \<Rightarrow> world \<Rightarrow> world" where
  "hedgingLogic env cfg px t mainProfitPct w =
     (if hedgeTrade w = None \<and> mainProfitPct \<le> - HEDGE_LOSS_PERCENT cfg then
        let hedgeSize = trade_size t;
            hedgeSide = (if side t = Long then SELL else BUY);
            sent = (if isRealTrade env then placeOrder env hedgeSide hedgeSize w
                    else (True, w))
        in if fst sent then
             sendTradeAlert AHedge ''Hedge Position Opened''
               ((snd sent)\<lparr>hedgeTrade :=
                   Some \<lparr>side = (if hedgeSide = SELL then Sell else Buy), entryPx = px,
                         trade_size = hedgeSize, isHedge = True, stopLossPrice = None,
                         maxPrice = None, minPrice = None\<rparr>\<rparr>)
           else sendTradeAlert AError ''Hedge Open Failed'' (snd sent)
      else w)"

text \<open>The test of a stop: \<open>stopLossPrice\<close> is set, and the price has crossed it in the
  direction of the side.\<close>

definition stop_hit :: "trade \<Rightarrow> real \<Rightarrow> bool" where
  "stop_hit t px =
     (truthy (stopLossPrice t) \<and>
      (case stopLossPrice t of
         None \<Rightarrow> False
       | Some sl \<Rightarrow> (side t = Long \<and> px \<le> sl) \<or> (side t = Short \<and> px \<ge> sl)))"

text \<open>The section "Hedge Position Management": the stop of the hedge is set once the
  hedge profit has reached \<open>HEDGE_TP_PERCENT\<close>, and the hedge is closed when its stop is
  hit.\<close>

definition hedgeManagement :: "environment \<Rightarrow> symbol_config \<Rightarrow> real \<Rightarrow> world \<Rightarrow> world" where
  "hedgeManagement env cfg px w =
     (case hedgeTrade w of
        None \<Rightarrow> w
      | Some hedge \<Rightarrow>
          let hedgeProfitPct = profit_percent (side hedge) (entryPx hedge) px;
              activate = (hedgeProfitPct \<ge> HEDGE_TP_PERCENT cfg
                          \<and> \<not> truthy (stopLossPrice hedge));
              hedge1 =
                (if activate then
                   (if side hedge = Long
                    then hedge\<lparr>stopLossPrice := Some (entryPx hedge *
                           (1 + (hedgeProfitPct - HEDGE_SL_PERCENT cfg) / 100))\<rparr>
                    else hedge\<lparr>stopLossPrice := Some (entryPx hedge *
                           (1 - (hedgeProfitPct - HEDGE_SL_PERCENT cfg) / 100))\<rparr>)
                 else hedge);
              w1 = (if activate
                    then sendTradeAlert AInfo ''Hedge Stop Loss Activated''
                           (w\<lparr>hedgeTrade := Some hedge1\<rparr>)
                    else w)
          in if stop_hit hedge1 px then snd (closeTrade env HEDGE_SL_HIT px THedge w1)
             else w1)"

text \<open>The first step of the section "Main Position Take Profit and Stop Loss": the stop
  of the main trade is set once the profit is above \<open>MAIN_PROTECTION_START\<close>.\<close>

definition mainProtection :: "symbol_config \<Rightarrow> real \<Rightarrow> world \<Rightarrow> world" where
  "mainProtection cfg mainProfitPct w =
     (case openTrade w of
        None \<Rightarrow> w
      | Some t \<Rightarrow>
          if mainProfitPct > MAIN_PROTECTION_START cfg \<and> \<not> truthy (stopLossPrice t) then
            sendTradeAlert AInfo ''Main Stop Loss Updated''
              (w\<lparr>openTrade := Some
                   (if side t = Long
                    then t\<lparr>stopLossPrice := Some (entryPx t *
                           (1 + MAIN_PROTECTION_PERCENT cfg / 100))\<rparr>
                    else t\<lparr>stopLossPrice := Some (entryPx t *
                           (1 - MAIN_PROTECTION_PERCENT cfg / 100))\<rparr>)\<rparr>)
          else w)"

text \<open>The rest of that section: the take profit is tested first and ends the work on the
  symbol (\<open>continue\<close>); the stop of the main trade is tested after it.\<close>

definition mainExit :: "environment \<Rightarrow> symbol_config \<Rightarrow> real \<Rightarrow> real \<Rightarrow> world \<Rightarrow> world" where
  "mainExit env cfg px mainProfitPct w =
     (if mainProfitPct \<ge> MAIN_TP_PERCENT cfg then snd (closeTrade env MAIN_TP_50 px TMain w)
      else
        case openTrade w of
          None \<Rightarrow> w
        | Some t \<Rightarrow>
            if stop_hit t px then snd (closeTrade env MAIN_SL_HIT px TMain w) else w)"

text \<open>The section "Trade Management Logic" as a whole, for the open main trade \<open>t\<close>.\<close>

definition tradeManagement ::
  "environment \<Rightarrow> symbol_config \<Rightarrow> real \<Rightarrow> trade \<Rightarrow> world \<Rightarrow> world" where
  "tradeManagement env cfg px t w =
     (let t1 = trackExtremes px t;
          w1 = w\<lparr>openTrade := Some t1\<rparr>;
          mainProfitPct = profit_percent (side t1) (entryPx t1) px;
          w2 = hedgingLogic env cfg px t1 mainProfitPct w1;
          w3 = hedgeManagement env cfg px w2;
          w4 = mainProtection cfg mainProfitPct w3
      in mainExit env cfg px mainProfitPct w4)"

text \<open>The body of the loop of \<open>mainLoop\<close> for one symbol, in a bot that is running
  (\<open>config.BOT_RUNNING\<close>): with no candles the symbol is skipped.\<close>

definition mainLoop_symbol ::
  "environment \<Rightarrow> string \<Rightarrow> symbol_config \<Rightarrow> observation option \<Rightarrow> world \<Rightarrow> world" where
  "mainLoop_symbol env symb cfg obs w =
     (case obs of
        None \<Rightarrow> w
      | Some ob \<Rightarrow>
          let w1 = gridManagement cfg (lastPx ob) w
          in case openTrade w1 of
               None \<Rightarrow> tradeEntry env symb cfg ob w1
             | Some t \<Rightarrow> tradeManagement env cfg (lastPx ob) t w1)"

text \<open>A run of ticks for one symbol.\<close>

definition run_ticks ::
  "environment \<Rightarrow> string \<Rightarrow> symbol_config \<Rightarrow> world \<Rightarrow> observation option list \<Rightarrow> world" where
  "run_ticks env symb cfg w obss = foldl (\<lambda>w obs. mainLoop_symbol env symb cfg obs w) w obss"

subsection \<open>Inputs of the examples\<close>

text \<open>The configuration of BTCUSDT that the source has as default.\<close>

definition BTCUSDT_config :: symbol_config where
  "BTCUSDT_config =
     \<lparr>GRID_TRAIL_THRESHOLD = 1 / 100, CAPITAL = 1000, RISK_PERCENT = 1, LEVERAGE = 5,
      GRID_STEPS = 5, SYMBOL_GRID_SPACING = 3 / 1000, HEDGE_LOSS_PERCENT = 8,
      HEDGE_TP_PERCENT = 10, HEDGE_SL_PERCENT = 5, MAIN_TP_PERCENT = 50,
      MAIN_PROTECTION_START = 20, MAIN_PROTECTION_PERCENT = 10\<rparr>"

definition demo_env :: environment where
  "demo_env = \<lparr>isRealTrade = False, accept = (\<lambda>k. True)\<rparr>"

text \<open>Live trading with an exchange that accepts every order, one that rejects every
  order, and one that accepts only the first.\<close>

definition accepting_env :: environment where
  "accepting_env = \<lparr>isRealTrade = True, accept = (\<lambda>k. True)\<rparr>"

definition rejecting_env :: environment where
  "rejecting_env = \<lparr>isRealTrade = True, accept = (\<lambda>k. False)\<rparr>"

definition first_only_env :: environment where
  "first_only_env = \<lparr>isRealTrade = True, accept = (\<lambda>k. k = 0)\<rparr>"

text \<open>A main long position of size 1 entered at 100, and its hedge entered at 92.\<close>

definition long_100 :: trade where
  "long_100 =
     \<lparr>side = Long, entryPx = 100, trade_size = 1, isHedge = False, stopLossPrice = None,
      maxPrice = None, minPrice = None\<rparr>"

definition hedge_92 :: trade where
  "hedge_92 =
     \<lparr>side = Sell, entryPx = 92, trade_size = 1, isHedge = True, stopLossPrice = None,
      maxPrice = None, minPrice = None\<rparr>"

definition flat_world :: world where
  "flat_world = loadSymbolState None [] None"

definition long_world :: world where
  "long_world = loadSymbolState None [] (Some long_100)"

definition hedged_world :: world where
  "hedged_world = long_world\<lparr>hedgeTrade := Some hedge_92\<rparr>"

subsection \<open>Words of the specification for the positions\<close>

text \<open>The trade records that a step has appended, and the alerts it has sent.\<close>

definition new_trades :: "world \<Rightarrow> world \<Rightarrow> trade_record list" where
  "new_trades w w' = drop (length (trades w)) (trades w')"

definition new_alerts :: "world \<Rightarrow> world \<Rightarrow> (alert_type \<times> string) list" where
  "new_alerts w w' = drop (length (alerts w)) (alerts w')"

text \<open>How many main positions, and how many hedges, have been closed so far: every close
  appends one record of its type.\<close>

definition main_closes :: "world \<Rightarrow> nat" where
  "main_closes w = length (filter (\<lambda>r. tradeType r = TMain) (trades w))"

definition hedge_closes :: "world \<Rightarrow> nat" where
  "hedge_closes w = length (filter (\<lambda>r. tradeType r = THedge) (trades w))"

text \<open>The exchange accepts every order, or no order is sent (demo mode).\<close>

definition orders_succeed :: "environment \<Rightarrow> bool" where
  "orders_succeed env = (\<not> isRealTrade env \<or> (\<forall>k. accept env k))"

text \<open>No hedge without a main position.\<close>

definition hedge_has_main :: "world \<Rightarrow> bool" where
  "hedge_has_main w = (hedgeTrade w \<noteq> None \<longrightarrow> openTrade w \<noteq> None)"

text \<open>The record that \<open>closeTrade\<close> appends for a trade.\<close>

definition record_of :: "trade \<Rightarrow> trade_type \<Rightarrow> close_reason \<Rightarrow> real \<Rightarrow> trade_record" where
  "record_of t tt reason px =
     \<lparr>closed_trade = t, tradeType = tt, closeReason = reason, exitPrice = px,
      profitPct = profit_percent (side t) (entryPx t) px\<rparr>"

text \<open>The order that \<open>closeTrade\<close> sends through \<open>closeOrder\<close> for a trade: the side opposite
  to \<open>trade.side === 'long' ? 'BUY' : 'SELL'\<close>, which is a sell for the side \<open>'long'\<close> and a
  buy for every other side (also for a hedge of side \<open>'buy'\<close>), and the size of the trade.\<close>

definition close_request :: "trade \<Rightarrow> order_request" where
  "close_request t = \<lparr>order_side = (if side t = Long then SELL else BUY), qty = trade_size t\<rparr>"

text \<open>Observations of the examples: a price without an entry signal, and a price with the
  signal to go long.\<close>

definition price_only :: "real \<Rightarrow> observation option" where
  "price_only px = Some \<lparr>lastPx = px, signal = None\<rparr>"

definition long_signal :: "real \<Rightarrow> observation" where
  "long_signal px = \<lparr>lastPx = px, signal = Some Long\<rparr>"

text \<open>The main long position from 100 after a tick at 121, where its stop has been set
  to 110.\<close>

definition protected_world :: world where
  "protected_world = run_ticks demo_env ''BTCUSDT'' BTCUSDT_config long_world [price_only 121]"

text \<open>The state in which the exit tests of a tick are made: after the price extremes, the
  hedging logic, the hedge management and the protection of the main trade.\<close>

definition before_exit :: "environment \<Rightarrow> symbol_config \<Rightarrow> real \<Rightarrow> trade \<Rightarrow> world \<Rightarrow> world" where
  "before_exit env cfg px t w =
     mainProtection cfg (profit_percent (side t) (entryPx t) px)
       (hedgeManagement env cfg px
          (hedgingLogic env cfg px (trackExtremes px t)
             (profit_percent (side t) (entryPx t) px)
             (w\<lparr>openTrade := Some (trackExtremes px t)\<rparr>)))"

section \<open>Regime classification: the decision table\<close>

lemma reduce_add_sum_list: "reduce_add xs = sum_list xs"
proof -
  have "foldl (\<lambda>a b. a + b) a xs = a + sum_list xs" for a :: real
    by (induction xs arbitrary: a) (simp_all add: add.assoc)
  from this [of 0] show ?thesis by (simp add: reduce_add_def)
qed

lemma slice_from_last10:
  assumes "20 \<le> length xs"
  shows "slice_from xs (- 10) = rev (take 10 (rev xs))"
proof -
  have "slice_index (length xs) (- 10) = length xs - 10"
    using assms by (simp add: slice_index_def)
  then show ?thesis by (simp add: slice_from_def take_rev)
qed

lemma slice_prev10:
  assumes "20 \<le> length xs"
  shows "slice xs (- 20) (- 10) = rev (take 10 (drop 10 (rev xs)))"
proof -
  have a: "slice_index (length xs) (- 20) = length xs - 20"
    using assms by (simp add: slice_index_def)
  have b: "slice_index (length xs) (- 10) = length xs - 10"
    using assms by (simp add: slice_index_def)
  have c: "length xs - 10 - (length xs - 20) = 10"
    using assms by simp
  have "rev (take 10 (drop 10 (rev xs))) = drop (length xs - 20) (take (length xs - 10) xs)"
    using assms by (simp add: take_rev drop_rev)
  also have "\<dots> = take (length xs - 10 - (length xs - 20)) (drop (length xs - 20) xs)"
    by (rule drop_take)
  finally have "rev (take 10 (drop 10 (rev xs))) = take 10 (drop (length xs - 20) xs)"
    by (simp only: c)
  moreover have "slice xs (- 20) (- 10) = take 10 (drop (length xs - 20) xs)"
    unfolding slice_def Let_def a b c ..
  ultimately show ?thesis by simp
qed

lemma momentum_of_spec:
  assumes "20 \<le> length hist"
  shows "momentum_of hist = spec_momentum hist"
  using assms
  by (simp add: momentum_of_def spec_momentum_def mean_def Let_def reduce_add_sum_list
      slice_from_last10 slice_prev10)

text \<open>
  Claim C4. For a history of positive prices, the regime that \<open>detectMarketCondition\<close>
  returns is the one the decision table gives when its rows are tried in order: fewer than
  20 samples is UNKNOWN; else momentum above the bull threshold with volatility below the
  volatility threshold is BULL; else momentum below the bear threshold with volatility
  below the volatility threshold is BEAR; else volatility above the threshold is VOLATILE;
  else SIDEWAYS. The momentum is the mean of the ten most recent samples minus the mean of
  the ten before them, divided by the latter. This holds of the classifier that reads its
  momentum thresholds from the configuration and of the one that has them as 0.02 and
  -0.02.
\<close>

theorem detectMarketCondition_table:
  assumes "\<forall>p \<in> set (priceHistory b). 0 < p"
  shows "fst (detectMarketCondition cfg b) =
           spec_table (length (priceHistory b)) (spec_momentum (priceHistory b))
             (volatilityIndex b) (BULL_MARKET_THRESHOLD cfg) (BEAR_MARKET_THRESHOLD cfg)
             (VOLATILITY_THRESHOLD cfg)
         \<and> fst (detectMarketCondition_Profitable cfg b) =
           spec_table (length (priceHistory b)) (spec_momentum (priceHistory b))
             (volatilityIndex b) (2 / 100) (- (2 / 100)) (VOLATILITY_THRESHOLD cfg)"
proof (cases "length (priceHistory b) < 20")
  case True
  then show ?thesis
    by (simp add: detectMarketCondition_def detectMarketCondition_Profitable_def)
next
  case False
  then have "momentum_of (priceHistory b) = spec_momentum (priceHistory b)"
    by (simp add: momentum_of_spec)
  with False show ?thesis
    by (simp add: detectMarketCondition_def detectMarketCondition_Profitable_def Let_def)
qed

lemma spec_momentum_bull_history: "spec_momentum bull_history = 3 / 100"
  by (simp add: spec_momentum_def bull_history_def mean_def sum_list_replicate)

theorem detectMarketCondition_table_witness:
  "fst (detectMarketCondition CONFIG_Enhanced
          (new_bot False\<lparr>priceHistory := bull_history\<rparr>)) = BULL \<and>
   fst (detectMarketCondition_Profitable CONFIG_Profitable
          (new_bot False\<lparr>priceHistory := bull_history\<rparr>)) = BULL"
proof -
  have pos: "\<forall>p \<in> set (priceHistory (new_bot False\<lparr>priceHistory := bull_history\<rparr>)). 0 < p"
    by (simp add: bull_history_def)
  have len: "length bull_history = 20"
    by (simp add: bull_history_def)
  show ?thesis
    using detectMarketCondition_table [OF pos, of CONFIG_Enhanced]
      detectMarketCondition_table [OF pos, of CONFIG_Profitable]
    by (simp add: spec_momentum_bull_history len new_bot_def CONFIG_Enhanced_def
        CONFIG_Profitable_def)
qed

section \<open>The stored regime\<close>

lemma calculateVolatilityIndex_marketCondition:
  "marketCondition (calculateVolatilityIndex b) = marketCondition b"
  by (simp add: calculateVolatilityIndex_def Let_def)

lemma detect_not_UNKNOWN:
  "marketCondition b \<noteq> UNKNOWN \<Longrightarrow> marketCondition (snd (detectMarketCondition cfg b)) \<noteq> UNKNOWN"
  by (simp add: detectMarketCondition_def Let_def)

lemma detect_Profitable_not_UNKNOWN:
  "marketCondition b \<noteq> UNKNOWN \<Longrightarrow>
   marketCondition (snd (detectMarketCondition_Profitable cfg b)) \<noteq> UNKNOWN"
  by (simp add: detectMarketCondition_Profitable_def Let_def)

lemma step_marketCondition:
  "marketCondition b \<noteq> UNKNOWN \<Longrightarrow> marketCondition (step cfg b op) \<noteq> UNKNOWN"
proof (cases op)
  case (Price r)
  then show "marketCondition b \<noteq> UNKNOWN \<Longrightarrow> ?thesis"
    by (simp add: getCurrentPrice_def Let_def split: option.splits)
next
  case (ATR_Profitable r)
  then show "marketCondition b \<noteq> UNKNOWN \<Longrightarrow> ?thesis"
    by (simp add: calculateATR_Profitable_def Let_def calculateVolatilityIndex_marketCondition
        split: sum.splits)
next
  case (ATR rs)
  then show "marketCondition b \<noteq> UNKNOWN \<Longrightarrow> ?thesis"
    by (simp add: calculateATR_def Let_def calculateVolatilityIndex_marketCondition
        split: prod.splits)
next
  case (ATR_server rs)
  then show "marketCondition b \<noteq> UNKNOWN \<Longrightarrow> ?thesis"
    by (simp add: calculateATR_server_def calculateDemoATR_def Let_def
        calculateVolatilityIndex_marketCondition split: prod.splits)
next
  case Detect
  then show "marketCondition b \<noteq> UNKNOWN \<Longrightarrow> ?thesis"
    by (simp add: detect_not_UNKNOWN)
next
  case Detect_Profitable
  then show "marketCondition b \<noteq> UNKNOWN \<Longrightarrow> ?thesis"
    by (simp add: detect_Profitable_not_UNKNOWN)
next
  case Generate
  then show "marketCondition b \<noteq> UNKNOWN \<Longrightarrow> ?thesis"
    by (simp add: generateGridLevels_def Let_def)
next
  case Generate_Profitable
  then show "marketCondition b \<noteq> UNKNOWN \<Longrightarrow> ?thesis"
    by (simp add: generateGridLevels_Profitable_def Let_def)
qed

lemma run_ops_marketCondition:
  "marketCondition b \<noteq> UNKNOWN \<Longrightarrow> marketCondition (run_ops cfg b ops) \<noteq> UNKNOWN"
  unfolding run_ops_def
  by (induction ops arbitrary: b) (simp_all add: step_marketCondition)

text \<open>
  Claim C10. With fewer than 20 samples in the price history the classifier returns
  UNKNOWN and leaves the bot as it was, the stored regime included. The stored regime is
  SIDEWAYS after the constructor, and after any sequence of the bot's methods it is not
  UNKNOWN: the spacing and quantity computations, which read the stored field, never see
  UNKNOWN.
\<close>

theorem short_history_keeps_regime:
  "(length (priceHistory b) < 20 \<longrightarrow>
      detectMarketCondition cfg b = (UNKNOWN, b) \<and>
      detectMarketCondition_Profitable cfg b = (UNKNOWN, b))
   \<and> marketCondition (new_bot demo) = SIDEWAYS
   \<and> marketCondition (run_ops cfg (new_bot demo) ops) \<noteq> UNKNOWN"
proof -
  have "marketCondition (new_bot demo) \<noteq> UNKNOWN"
    by (simp add: new_bot_def)
  then have "marketCondition (run_ops cfg (new_bot demo) ops) \<noteq> UNKNOWN"
    by (rule run_ops_marketCondition)
  then show ?thesis
    by (simp add: detectMarketCondition_def detectMarketCondition_Profitable_def new_bot_def)
qed

theorem short_history_keeps_regime_witness:
  "detectMarketCondition CONFIG_Enhanced (new_bot False) = (UNKNOWN, new_bot False) \<and>
   detectMarketCondition_Profitable CONFIG_Profitable (new_bot False) = (UNKNOWN, new_bot False) \<and>
   marketCondition (snd (detectMarketCondition CONFIG_Enhanced (new_bot False))) = SIDEWAYS"
  using short_history_keeps_regime [of "new_bot False" CONFIG_Enhanced False "[]"]
    short_history_keeps_regime [of "new_bot False" CONFIG_Profitable False "[]"]
  by (simp add: new_bot_def)

section \<open>Grid spacing\<close>

lemma clamp_max_min: "lo \<le> hi \<Longrightarrow> max lo (min hi x) = clamp x lo hi"
  by (simp add: clamp_def max_def min_def)

text \<open>
  Claim C6 as stated fails: the product of the clamped ratio and the regime multiplier is
  clamped once more before it is returned. In a volatile market with ATR 2000 at price
  50000 the ratio 0.032 is clamped to 0.025, and the spacing returned is 0.025, not
  0.025 times 1.5.
\<close>

theorem spacing_not_reclamped_counterexample:
  "calculateDynamicGridSpacing_Profitable CONFIG_Profitable volatile_bot \<noteq>
     spec_spacing 2000 50000 (4 / 1000) (25 / 1000) (15 / 10)
   \<and> calculateDynamicGridSpacing CONFIG_Enhanced volatile_bot \<noteq>
     spec_spacing 2000 50000 (3 / 1000) (25 / 1000) (15 / 10)"
  by (simp add: calculateDynamicGridSpacing_Profitable_def calculateDynamicGridSpacing_def
      CONFIG_Profitable_def CONFIG_Enhanced_def volatile_bot_def new_bot_def spec_spacing_def
      clamp_def Let_def)

text \<open>
  Claim C6, amended. When ATR and price are not zero and the minimum spacing is not above
  the maximum, the spacing is \<open>clamp(ATR/price \<times> 0.8, min, max)\<close> times the regime
  multiplier (BULL 1.2, BEAR 0.9, VOLATILE 1.5, SIDEWAYS 1 in \<open>ProfitableGridTradingBot\<close>;
  BULL 1.3, BEAR 0.9, VOLATILE 1.5, SIDEWAYS 0.8 and a further factor
  \<open>1 + 10 \<times> volatility\<close> when the volatility index is above 0.01 in
  \<open>EnhancedBybitGridBot\<close>), clamped again to the minimum and maximum spacing. When ATR or
  price is zero the spacing is the configured default (\<open>GRID_SPACING\<close>, respectively
  \<open>MIN_GRID_SPACING\<close>).
\<close>

theorem spacing_clamped_twice:
  "(atr b \<noteq> 0 \<and> currentPrice b \<noteq> 0 \<and> MIN_GRID_SPACING cfg \<le> MAX_GRID_SPACING cfg \<longrightarrow>
      calculateDynamicGridSpacing_Profitable cfg b =
        clamp (spec_spacing (atr b) (currentPrice b) (MIN_GRID_SPACING cfg)
                 (MAX_GRID_SPACING cfg) (spacing_multiplier_Profitable (marketCondition b)))
          (MIN_GRID_SPACING cfg) (MAX_GRID_SPACING cfg)
      \<and> calculateDynamicGridSpacing cfg b =
        clamp (spec_spacing (atr b) (currentPrice b) (MIN_GRID_SPACING cfg)
                 (MAX_GRID_SPACING cfg) (spacing_multiplier (marketCondition b))
               * volatility_boost (volatilityIndex b))
          (MIN_GRID_SPACING cfg) (MAX_GRID_SPACING cfg))
   \<and> (atr b = 0 \<or> currentPrice b = 0 \<longrightarrow>
      calculateDynamicGridSpacing_Profitable cfg b = GRID_SPACING cfg \<and>
      calculateDynamicGridSpacing cfg b = MIN_GRID_SPACING cfg)"
proof -
  have p: "calculateDynamicGridSpacing_Profitable cfg b =
           clamp (spec_spacing (atr b) (currentPrice b) (MIN_GRID_SPACING cfg)
                    (MAX_GRID_SPACING cfg) (spacing_multiplier_Profitable (marketCondition b)))
             (MIN_GRID_SPACING cfg) (MAX_GRID_SPACING cfg)"
    if "atr b \<noteq> 0" "currentPrice b \<noteq> 0" "MIN_GRID_SPACING cfg \<le> MAX_GRID_SPACING cfg"
    using that
    by (cases "marketCondition b")
      (simp_all add: calculateDynamicGridSpacing_Profitable_def Let_def clamp_max_min
        spec_spacing_def)
  have e: "calculateDynamicGridSpacing cfg b =
           clamp (spec_spacing (atr b) (currentPrice b) (MIN_GRID_SPACING cfg)
                    (MAX_GRID_SPACING cfg) (spacing_multiplier (marketCondition b))
                  * volatility_boost (volatilityIndex b))
             (MIN_GRID_SPACING cfg) (MAX_GRID_SPACING cfg)"
    if "atr b \<noteq> 0" "currentPrice b \<noteq> 0" "MIN_GRID_SPACING cfg \<le> MAX_GRID_SPACING cfg"
    using that
    by (cases "marketCondition b")
      (simp_all add: calculateDynamicGridSpacing_def Let_def clamp_max_min
        spec_spacing_def volatility_boost_def)
  have z: "calculateDynamicGridSpacing_Profitable cfg b = GRID_SPACING cfg \<and>
      calculateDynamicGridSpacing cfg b = MIN_GRID_SPACING cfg"
    if "atr b = 0 \<or> currentPrice b = 0"
    using that
    by (simp add: calculateDynamicGridSpacing_Profitable_def calculateDynamicGridSpacing_def)
  from p e z show ?thesis by blast
qed

theorem spacing_clamped_twice_witness:
  "calculateDynamicGridSpacing_Profitable CONFIG_Profitable volatile_bot = 25 / 1000 \<and>
   calculateDynamicGridSpacing CONFIG_Enhanced volatile_bot = 25 / 1000"
proof -
  show ?thesis
    using spacing_clamped_twice [of volatile_bot CONFIG_Profitable]
      spacing_clamped_twice [of volatile_bot CONFIG_Enhanced]
    by (simp add: CONFIG_Profitable_def CONFIG_Enhanced_def volatile_bot_def new_bot_def
        spec_spacing_def clamp_def volatility_boost_def)
qed

section \<open>Order quantity\<close>

text \<open>
  Claim C8 as stated fails: the quantity is not scaled by the multipliers of the grid
  spacing. In a volatile market the spacing multiplier is 1.5, and the quantity at price
  100 is the smaller of the two bounds times 0.7.
\<close>

theorem quantity_multiplier_counterexample:
  "calculateOrderQuantity CONFIG_Profitable volatile_bot 100 \<noteq>
     spec_quantity 1000 12 (9 / 100) 100
       (spacing_multiplier_Profitable (marketCondition volatile_bot)) (1 / 1000)
   \<and> calculateOrderQuantity CONFIG_Enhanced volatile_bot 100 \<noteq>
     spec_quantity 1000 15 (8 / 100) 100
       (spacing_multiplier (marketCondition volatile_bot)) (1 / 1000)"
  by (simp add: calculateOrderQuantity_def CONFIG_Profitable_def CONFIG_Enhanced_def
      volatile_bot_def new_bot_def spec_quantity_def Let_def)

text \<open>
  Claim C8, amended. For a price that is not zero and at least one grid level, the order
  quantity is \<open>min(baseInvestment/levels/price, baseInvestment \<times> maxPositionFraction/price)\<close>
  times the quantity's own regime multiplier (VOLATILE 0.7, BULL 1.1, BEAR 0.9, otherwise
  1), and not below the lot 0.001.
\<close>

theorem quantity_own_multipliers:
  assumes "price \<noteq> 0" and "GRID_LEVELS cfg \<noteq> 0"
  shows "calculateOrderQuantity cfg b price =
           spec_quantity (BASE_INVESTMENT cfg) (GRID_LEVELS cfg) (MAX_POSITION_SIZE cfg) price
             (quantity_multiplier (marketCondition b)) (1 / 1000)"
  by (cases "marketCondition b")
    (simp_all add: calculateOrderQuantity_def spec_quantity_def Let_def)

theorem quantity_own_multipliers_witness:
  "calculateOrderQuantity CONFIG_Profitable volatile_bot 100 = 7 / 12"
proof -
  have a: "(100::real) \<noteq> 0" "GRID_LEVELS CONFIG_Profitable \<noteq> 0"
    by (simp_all add: CONFIG_Profitable_def)
  show ?thesis
    using quantity_own_multipliers [OF a, of volatile_bot]
    by (simp add: CONFIG_Profitable_def volatile_bot_def new_bot_def spec_quantity_def)
qed

section \<open>Average true range with too few bars\<close>

lemma few_bars_not_enough: "few_bars cfg (Inr resp) \<Longrightarrow> \<not> enough_klines cfg resp"
  by (auto simp: enough_klines_def bars_def split: option.splits)

lemma atrIntervals_few:
  "list_all (few_bars cfg) rs \<Longrightarrow> atrIntervals cfg rs s n = (s, n)"
proof (induction rs)
  case Nil
  then show ?case by simp
next
  case (Cons r rs)
  then show ?case
    by (cases r) (simp_all add: few_bars_not_enough del: few_bars.simps)
qed

lemma atrIntervals_filter:
  "atrIntervals cfg rs s n = atrIntervals cfg (filter (\<lambda>r. \<not> few_bars cfg r) rs) s n"
proof (induction rs arbitrary: s n)
  case Nil
  then show ?case by simp
next
  case (Cons r rs)
  show ?case
  proof (cases r)
    case (Inl e)
    then show ?thesis using Cons by simp
  next
    case (Inr resp)
    show ?thesis
    proof (cases "few_bars cfg (Inr resp)")
      case True
      then have "\<not> enough_klines cfg resp" by (rule few_bars_not_enough)
      with True Inr Cons show ?thesis by simp
    next
      case False
      with Inr Cons show ?thesis by simp
    qed
  qed
qed

text \<open>
  Claim C5 as stated fails for the bot of \<open>src/server.js\<close>: with three bars in each of
  the three kline responses (fewer than \<open>ATR_PERIOD + 1 = 15\<close>) and live mode, its
  \<open>calculateATR\<close> does not report insufficient data but returns the number 500, one percent
  of the current price.
\<close>

theorem atr_server_numeric_counterexample:
  "list_all (few_bars CONFIG_Enhanced) [Inr three_bars, Inr three_bars, Inr three_bars] \<and>
   fst (calculateATR_server CONFIG_Enhanced [Inr three_bars, Inr three_bars, Inr three_bars]
          fresh_bot) = 500"
  by (simp add: calculateATR_server_def calculateDemoATR_def calculateVolatilityIndex_def
      enough_klines_def three_bars_def fresh_bot_def new_bot_def CONFIG_Enhanced_def bars_def
      Let_def)

text \<open>
  Claim C5, amended. A kline response with fewer than \<open>ATR_PERIOD + 1\<close> bars makes
  \<open>calculateATR\<close> of \<open>ProfitableGridTradingBot\<close> throw "Invalid ATR data". In
  \<open>EnhancedBybitGridBot\<close> such a response, like a failed call, adds nothing to the sum over
  the intervals; when every interval is like that, the variant of \<open>src/unnamed/part_001\<close>
  throws "No valid ATR calculations", and the variant of \<open>src/server.js\<close> returns the
  result of \<open>calculateDemoATR\<close>, a number computed from the bot's own price history and
  current price and not from the bars.
\<close>

theorem atr_insufficient_data:
  "(few_bars cfg (Inr resp) \<longrightarrow>
      calculateATR_Profitable cfg (Inr resp) b = Inl (Error ''Invalid ATR data''))
   \<and> (list_all (few_bars cfg) rs \<longrightarrow>
      calculateATR cfg rs b = Inl (Error ''No valid ATR calculations'') \<and>
      calculateATR_server cfg rs b = calculateDemoATR b)
   \<and> atrIntervals cfg rs s n = atrIntervals cfg (filter (\<lambda>r. \<not> few_bars cfg r) rs) s n"
proof -
  have 1: "calculateATR_Profitable cfg (Inr resp) b = Inl (Error ''Invalid ATR data'')"
    if "few_bars cfg (Inr resp)"
    using few_bars_not_enough [OF that] by (simp add: calculateATR_Profitable_def)
  have 2: "calculateATR cfg rs b = Inl (Error ''No valid ATR calculations'') \<and>
      calculateATR_server cfg rs b = calculateDemoATR b"
    if "list_all (few_bars cfg) rs"
    using atrIntervals_few [OF that]
    by (simp add: calculateATR_def calculateATR_server_def)
  from 1 2 atrIntervals_filter show ?thesis by blast
qed

theorem atr_insufficient_data_witness:
  "calculateATR_Profitable CONFIG_Profitable (Inr three_bars) fresh_bot
     = Inl (Error ''Invalid ATR data'')
   \<and> calculateATR CONFIG_Enhanced [Inr three_bars, Inr three_bars, Inr three_bars] fresh_bot
     = Inl (Error ''No valid ATR calculations'')
   \<and> calculateATR_server CONFIG_Enhanced [Inr three_bars, Inr three_bars, Inr three_bars]
       fresh_bot = calculateDemoATR fresh_bot"
  using atr_insufficient_data [of CONFIG_Profitable three_bars fresh_bot "[]" 0 0]
    atr_insufficient_data [of CONFIG_Enhanced three_bars fresh_bot
      "[Inr three_bars, Inr three_bars, Inr three_bars]" 0 0]
  by (simp add: three_bars_def bars_def CONFIG_Profitable_def CONFIG_Enhanced_def)

section \<open>Generated grid levels\<close>

lemma gridLoop_unfold:
  "gridLoop cfg b s i acc =
     (if i < GRID_LEVELS cfg then
        (if rel_distance cfg b i < s * (5 / 10) then gridLoop cfg b s (i + 1) acc
         else gridLoop cfg b s (i + 1) (acc @ [mk_level cfg b s i]))
      else acc)"
  by (subst gridLoop.simps)
    (simp add: Let_def mk_level_def rel_distance_def step_price_def mult.commute)

lemma gridLoop_eq:
  "gridLoop cfg b s i acc =
     acc @ map (mk_level cfg b s)
             (filter (\<lambda>j. \<not> rel_distance cfg b j < s * (5 / 10)) [i..<GRID_LEVELS cfg])"
proof (induction "GRID_LEVELS cfg - i" arbitrary: i acc)
  case 0
  then show ?case by (subst gridLoop_unfold) simp
next
  case (Suc k)
  then have less: "i < GRID_LEVELS cfg" and k: "k = GRID_LEVELS cfg - (i + 1)"
    by simp_all
  have upt: "[i..<GRID_LEVELS cfg] = i # [i + 1..<GRID_LEVELS cfg]"
    using less by (simp add: upt_conv_Cons)
  have ih: "gridLoop cfg b s (i + 1) acc' =
      acc' @ map (mk_level cfg b s)
               (filter (\<lambda>j. \<not> rel_distance cfg b j < s * (5 / 10)) [i + 1..<GRID_LEVELS cfg])"
    for acc'
    using Suc.hyps(1) [OF k] .
  show ?case
  proof (cases "rel_distance cfg b i < s * (5 / 10)")
    case True
    have "gridLoop cfg b s i acc = gridLoop cfg b s (i + 1) acc"
      by (subst gridLoop_unfold) (simp only: less True if_True)
    also note ih
    finally show ?thesis
      by (simp only: upt filter.simps True not_True_eq_False if_False)
  next
    case False
    have "gridLoop cfg b s i acc = gridLoop cfg b s (i + 1) (acc @ [mk_level cfg b s i])"
      by (subst gridLoop_unfold) (simp only: less False if_True if_False)
    also note ih
    finally show ?thesis
      by (simp only: upt filter.simps False not_False_eq_True if_True list.map append_assoc
          append_Cons append_Nil)
  qed
qed

lemma sorted_grid:
  "is_grid cfg b s (sort_key priceDistance (gridLoop cfg b s 0 []))"
proof -
  let ?keep = "filter (\<lambda>j. \<not> rel_distance cfg b j < s * (5 / 10)) [0..<GRID_LEVELS cfg]"
  let ?xs = "map (mk_level cfg b s) ?keep"
  have loop: "gridLoop cfg b s 0 [] = ?xs"
    by (simp only: gridLoop_eq append_Nil)
  have lev: "map level ?xs = ?keep"
    by (simp add: mk_level_def comp_def)
  have inj: "inj_on level (set ?xs)"
    by (auto simp: inj_on_def mk_level_def)
  have "distinct ?keep"
    by simp
  then have "distinct (map level ?xs)"
    by (simp only: lev)
  then have "distinct ?xs"
    by (rule distinct_map [THEN iffD1, THEN conjunct1])
  then have "distinct (sort_key priceDistance ?xs)"
    by (simp only: distinct_sort)
  moreover have "inj_on level (set (sort_key priceDistance ?xs))"
    using inj by (simp only: set_sort)
  ultimately have d: "distinct (map level (sort_key priceDistance ?xs))"
    by (simp only: distinct_map)
  have "set (map level (sort_key priceDistance ?xs)) = level ` set ?xs"
    by (simp only: set_map set_sort)
  also have "\<dots> = set (map level ?xs)"
    by (simp only: set_map)
  finally have s: "set (map level (sort_key priceDistance ?xs)) = set ?keep"
    by (simp only: lev)
  have "\<forall>l \<in> set ?xs.
            buyPrice l = toFixed 6 (step_price cfg b (level l))
            \<and> sellPrice l = toFixed 6 (step_price cfg b (level l) * (1 + s))
            \<and> priceDistance l = rel_distance cfg b (level l)"
    by (auto simp: mk_level_def)
  then have f: "\<forall>l \<in> set (sort_key priceDistance ?xs).
            buyPrice l = toFixed 6 (step_price cfg b (level l))
            \<and> sellPrice l = toFixed 6 (step_price cfg b (level l) * (1 + s))
            \<and> priceDistance l = rel_distance cfg b (level l)"
    by (simp only: set_sort)
  have o: "sorted (map priceDistance (sort_key priceDistance ?xs))"
    by (rule sorted_sort_key)
  show ?thesis
    unfolding is_grid_def loop using o d s f by blast
qed

text \<open>
  Claim C7, amended. For a positive centre price, the grid that \<open>generateGridLevels\<close>
  returns has these properties, in both classes and with the spacing of the class: the
  buy prices come from dividing the interval from \<open>price - ATR \<times> multiplier\<close> to
  \<open>price + ATR \<times> multiplier\<close> into \<open>GRID_LEVELS\<close> equal steps; a level stores the buy
  price of its step rounded to six decimals and, as sell price, the unrounded buy price
  times \<open>1 + spacing\<close> rounded to six decimals; exactly the steps whose relative distance
  from the centre is below half the spacing are dropped; and the levels are in ascending
  order of that distance.
\<close>

theorem grid_levels_rounded:
  assumes "0 < currentPrice b"
  shows "is_grid cfg b (calculateDynamicGridSpacing_Profitable cfg b)
           (fst (generateGridLevels_Profitable cfg b))
       \<and> is_grid cfg b (calculateDynamicGridSpacing cfg b) (fst (generateGridLevels cfg b))"
  by (simp add: generateGridLevels_Profitable_def generateGridLevels_def Let_def sorted_grid)

text \<open>
  Claim C7 as stated fails on the stored prices: they are rounded to six decimals one by
  one. With ATR 1 at price 100 in \<open>ProfitableGridTradingBot\<close> the spacing is 0.008, and
  the level of step 4 is stored with buy price 99.433333 and sell price 100.2288, which is
  not 99.433333 times 1.008.
\<close>

theorem stored_sell_price_counterexample:
  "calculateDynamicGridSpacing_Profitable CONFIG_Profitable calm_bot = 8 / 1000
   \<and> map (\<lambda>l. (buyPrice l, sellPrice l))
       (filter (\<lambda>l. level l = 4)
          (fst (generateGridLevels_Profitable CONFIG_Profitable calm_bot)))
     = [(99433333 / 1000000, 1002288 / 10000)]
   \<and> (1002288 / 10000 :: real) \<noteq> 99433333 / 1000000 * (1 + 8 / 1000)"
  by code_simp

theorem grid_levels_rounded_witness:
  "sorted (map priceDistance (fst (generateGridLevels_Profitable CONFIG_Profitable calm_bot)))
   \<and> distinct (map level (fst (generateGridLevels_Profitable CONFIG_Profitable calm_bot)))"
proof -
  have "0 < currentPrice calm_bot"
    by (simp add: calm_bot_def new_bot_def)
  from grid_levels_rounded [OF this, of CONFIG_Profitable] show ?thesis
    by (simp add: is_grid_def)
qed

section \<open>Entry sizing\<close>

lemma gridManagement_frame:
  "openTrade (gridManagement cfg px w) = openTrade w"
  "hedgeTrade (gridManagement cfg px w) = hedgeTrade w"
  "trades (gridManagement cfg px w) = trades w"
  "requests (gridManagement cfg px w) = requests w"
  by (simp_all add: gridManagement_def sendTradeAlert_def)

lemma gridManagement_alerts:
  "\<exists>g. alerts (gridManagement cfg px w) = alerts w @ g \<and> (AWarn, ''Lot size below minimum'') \<notin> set g"
  by (simp add: gridManagement_def sendTradeAlert_def)

text \<open>
  Claim C9 as stated fails in its example: for BTCUSDT with capital 1000, risk 1 percent and
  leverage 5 at price 50000 the computed size is 0.001, not 0.0001. It is not below the
  minimum lot 0.001, so no warning is sent and the computed size is traded.
\<close>

theorem entry_example_counterexample:
  "sizeTotal BTCUSDT_config 50000 = 1 / 1000
   \<and> minLot ''BTCUSDT'' = 1 / 1000
   \<and> \<not> sizeTotal BTCUSDT_config 50000 < minLot ''BTCUSDT''
   \<and> alerts (mainLoop_symbol demo_env ''BTCUSDT'' BTCUSDT_config (Some (long_signal 50000))
               flat_world)
       = [(AGridmove, ''Grid Updated''), (AOpen, ''Position Opened (DEMO)'')]
   \<and> map_option trade_size
        (openTrade (mainLoop_symbol demo_env ''BTCUSDT'' BTCUSDT_config
                      (Some (long_signal 50000)) flat_world))
       = Some (1 / 1000)"
  by (simp add: sizeTotal_def minLot_def MIN_LOT_SIZES_def DEFAULT_MIN_LOT_def or_default_def
      BTCUSDT_config_def mainLoop_symbol_def gridManagement_def tradeEntry_def
      sendTradeAlert_def demo_env_def flat_world_def loadSymbolState_def long_signal_def
      Let_def)

text \<open>
  Claim C9, amended. When an entry signal fires (no main position open, price not zero), the
  size \<open>capital \<times> riskPercent/100 \<times> leverage / price\<close> is compared with the minimum lot of
  the symbol. The warning "Lot size below minimum" is sent exactly when the size is below
  the minimum lot, and then the minimum lot is the quantity of the order request and the
  size of the position opened; otherwise the computed size is. (For BTCUSDT with capital
  1000, risk 1 percent and leverage 5 the size is 0.001 at price 50000, which is not below
  the minimum, and 0.0001 at price 500000, which is.)
\<close>

theorem entry_size_floor:
  assumes "openTrade w = None" and "signal ob = Some sg" and "lastPx ob \<noteq> 0"
  shows "let w' = mainLoop_symbol env symb cfg (Some ob) w;
             sz = (if sizeTotal cfg (lastPx ob) < minLot symb then minLot symb
                   else sizeTotal cfg (lastPx ob))
         in sizeTotal cfg (lastPx ob) =
              or_default (CAPITAL cfg) 1000 * (or_default (RISK_PERCENT cfg) 1 / 100)
                * or_default (LEVERAGE cfg) 1 / lastPx ob
          \<and> ((AWarn, ''Lot size below minimum'') \<in> set (drop (length (alerts w)) (alerts w'))
               \<longleftrightarrow> sizeTotal cfg (lastPx ob) < minLot symb)
          \<and> (isRealTrade env \<longrightarrow>
               map (\<lambda>r. qty (fst r)) (drop (length (requests w)) (requests w')) = [sz])
          \<and> (\<forall>t. openTrade w' = Some t \<longrightarrow> trade_size t = sz)
          \<and> (\<not> isRealTrade env \<or> accept env (length (requests w)) \<longrightarrow> openTrade w' \<noteq> None)"
proof -
  obtain g where g: "alerts (gridManagement cfg (lastPx ob) w) = alerts w @ g"
    "(AWarn, ''Lot size below minimum'') \<notin> set g"
    using gridManagement_alerts by blast
  show ?thesis
    using assms g
    by (simp add: mainLoop_symbol_def Let_def gridManagement_frame tradeEntry_def
        sendTradeAlert_def placeOrder_def sizeTotal_def)
qed

theorem entry_size_floor_witness:
  "sizeTotal BTCUSDT_config 500000 = 1 / 10000
   \<and> alerts (mainLoop_symbol demo_env ''BTCUSDT'' BTCUSDT_config (Some (long_signal 500000))
               flat_world)
       = [(AGridmove, ''Grid Updated''), (AWarn, ''Lot size below minimum''),
          (AOpen, ''Position Opened (DEMO)'')]
   \<and> map_option trade_size
        (openTrade (mainLoop_symbol demo_env ''BTCUSDT'' BTCUSDT_config
                      (Some (long_signal 500000)) flat_world))
       = Some (1 / 1000)"
proof -
  have a: "openTrade flat_world = None" "signal (long_signal 500000) = Some Long"
    "lastPx (long_signal 500000) \<noteq> 0"
    by (simp_all add: flat_world_def loadSymbolState_def long_signal_def)
  have s: "sizeTotal BTCUSDT_config 500000 = 1 / 10000" "minLot ''BTCUSDT'' = 1 / 1000"
    by (simp_all add: sizeTotal_def minLot_def MIN_LOT_SIZES_def DEFAULT_MIN_LOT_def
        or_default_def BTCUSDT_config_def)
  have al: "alerts (mainLoop_symbol demo_env ''BTCUSDT'' BTCUSDT_config
                      (Some (long_signal 500000)) flat_world)
       = [(AGridmove, ''Grid Updated''), (AWarn, ''Lot size below minimum''),
          (AOpen, ''Position Opened (DEMO)'')]"
    by (simp add: s mainLoop_symbol_def gridManagement_def tradeEntry_def
      sendTradeAlert_def demo_env_def flat_world_def loadSymbolState_def long_signal_def
      Let_def)
  from entry_size_floor [OF a, of demo_env "''BTCUSDT''" BTCUSDT_config]
  have "\<exists>t. openTrade (mainLoop_symbol demo_env ''BTCUSDT'' BTCUSDT_config
                      (Some (long_signal 500000)) flat_world) = Some t
            \<and> trade_size t = 1 / 1000"
    by (auto simp: Let_def s long_signal_def demo_env_def)
  with s al show ?thesis by auto
qed

section \<open>Closing trades and the sections of a tick\<close>

lemma orders_succeed_demo: "orders_succeed demo_env"
  by (simp add: orders_succeed_def demo_env_def)

lemma closeTrade_hedge:
  "closeTrade env reason px THedge w =
     (case hedgeTrade w of
        None \<Rightarrow> (False, w)
      | Some h \<Rightarrow>
          let sent = (if isRealTrade env
                      then closeOrder env (if side h = Long then BUY else SELL) (trade_size h) w
                      else (True, w))
          in if \<not> fst sent
             then (False, sendTradeAlert AError ''Close hedge Failed'' (snd sent))
             else (True, sendTradeAlert AClose ''HEDGE Position Closed''
                     ((snd sent)\<lparr>trades := trades (snd sent) @ [record_of h THedge reason px],
                                 hedgeTrade := None\<rparr>)))"
  by (subst closeTrade.simps) (simp add: Let_def record_of_def split: option.splits)

lemma closeTrade_main:
  "closeTrade env reason px TMain w =
     (case openTrade w of
        None \<Rightarrow> (False, w)
      | Some t \<Rightarrow>
          let sent = (if isRealTrade env
                      then closeOrder env (if side t = Long then BUY else SELL) (trade_size t) w
                      else (True, w))
          in if \<not> fst sent
             then (False, sendTradeAlert AError ''Close main Failed'' (snd sent))
             else
               let w' = (snd sent)\<lparr>trades := trades (snd sent) @ [record_of t TMain reason px],
                                   openTrade := None\<rparr>
               in (True, sendTradeAlert AClose ''MAIN Position Closed''
                     (if hedgeTrade w' \<noteq> None
                      then snd (closeTrade env MAIN_CLOSED px THedge w') else w')))"
  by (subst closeTrade.simps) (simp add: Let_def record_of_def split: option.splits)

text \<open>What a close of the hedge leaves and changes.\<close>

lemma closeTrade_hedge_cases:
  assumes "hedgeTrade w = Some h"
  shows "(fst (closeTrade env reason px THedge w)
          \<and> hedgeTrade (snd (closeTrade env reason px THedge w)) = None
          \<and> trades (snd (closeTrade env reason px THedge w))
              = trades w @ [record_of h THedge reason px])
       \<or> (\<not> fst (closeTrade env reason px THedge w)
          \<and> isRealTrade env \<and> \<not> accept env (length (requests w))
          \<and> hedgeTrade (snd (closeTrade env reason px THedge w)) = Some h
          \<and> trades (snd (closeTrade env reason px THedge w)) = trades w)"
  using assms
  by (simp add: closeTrade_hedge Let_def closeOrder_def placeOrder_def sendTradeAlert_def)

lemma closeTrade_hedge_openTrade:
  "openTrade (snd (closeTrade env reason px THedge w)) = openTrade w"
  by (simp add: closeTrade_hedge Let_def closeOrder_def placeOrder_def sendTradeAlert_def
      split: option.splits)

lemma closeTrade_hedge_none:
  "hedgeTrade w = None \<Longrightarrow> closeTrade env reason px THedge w = (False, w)"
  by (simp add: closeTrade_hedge)

text \<open>What a close of the main trade leaves and changes: it fails and changes nothing but
  the logs; or it succeeds, and then the hedge is closed after it unless there is none or
  its own close fails.\<close>

lemma closeTrade_main_cases:
  fixes env reason px w
  assumes "openTrade w = Some t"
  defines "w' \<equiv> snd (closeTrade env reason px TMain w)"
  shows "(\<not> fst (closeTrade env reason px TMain w)
          \<and> \<not> orders_succeed env
          \<and> openTrade w' = Some t \<and> hedgeTrade w' = hedgeTrade w \<and> trades w' = trades w
          \<and> (AError, ''Close main Failed'') \<in> set (new_alerts w w'))
       \<or> (fst (closeTrade env reason px TMain w)
          \<and> openTrade w' = None
          \<and> ((hedgeTrade w' = hedgeTrade w
               \<and> (hedgeTrade w \<noteq> None \<longrightarrow> \<not> orders_succeed env)
               \<and> trades w' = trades w @ [record_of t TMain reason px])
              \<or> (\<exists>h. hedgeTrade w = Some h \<and> hedgeTrade w' = None
                   \<and> trades w' = trades w @ [record_of t TMain reason px,
                                               record_of h THedge MAIN_CLOSED px])))"
  using assms(1) unfolding w'_def
  by (cases "hedgeTrade w")
    (auto simp: closeTrade_main closeTrade_hedge Let_def closeOrder_def placeOrder_def
      sendTradeAlert_def new_alerts_def orders_succeed_def)

text \<open>A close of the main trade by the answer to its own order: rejected, only the logs
  change; accepted (or not sent, in demo mode), the main trade is recorded and its slot
  emptied, whatever becomes of the hedge.\<close>

lemma closeTrade_main_rejected:
  assumes "openTrade w = Some t" and "isRealTrade env"
    and "\<not> accept env (length (requests w))"
  shows "closeTrade env reason px TMain w =
           (False, w\<lparr>requests := requests w @ [(close_request t, False)],
                     alerts := alerts w @ [(AError, ''Close main Failed'')]\<rparr>)"
  using assms
  by (simp add: closeTrade_main Let_def closeOrder_def placeOrder_def sendTradeAlert_def
      close_request_def)

lemma closeTrade_main_accepted:
  assumes "openTrade w = Some t"
    and "\<not> isRealTrade env \<or> accept env (length (requests w))"
  shows "fst (closeTrade env reason px TMain w)
       \<and> openTrade (snd (closeTrade env reason px TMain w)) = None
       \<and> (\<exists>ms. trades (snd (closeTrade env reason px TMain w))
                  = trades w @ record_of t TMain reason px # ms
              \<and> (\<forall>r \<in> set ms. tradeType r = THedge \<and> closeReason r = MAIN_CLOSED))
       \<and> (\<exists>rs. requests (snd (closeTrade env reason px TMain w))
                  = requests w @ (if isRealTrade env then [(close_request t, True)] else []) @ rs)"
  using assms
  by (cases "hedgeTrade w")
    (auto simp: closeTrade_main closeTrade_hedge Let_def closeOrder_def placeOrder_def
      sendTradeAlert_def close_request_def record_of_def)

lemma trackExtremes_keeps:
  "side (trackExtremes px t) = side t"
  "entryPx (trackExtremes px t) = entryPx t"
  "trade_size (trackExtremes px t) = trade_size t"
  "stopLossPrice (trackExtremes px t) = stopLossPrice t"
  by (simp_all add: trackExtremes_def Let_def)

lemma hedgingLogic_frame:
  "openTrade (hedgingLogic env cfg px t p w) = openTrade w"
  "trades (hedgingLogic env cfg px t p w) = trades w"
  by (simp_all add: hedgingLogic_def Let_def placeOrder_def sendTradeAlert_def)

lemma hedgingLogic_hedged:
  "hedgeTrade w \<noteq> None \<Longrightarrow> hedgingLogic env cfg px t p w = w"
  by (auto simp: hedgingLogic_def)

lemma hedgeManagement_openTrade:
  "openTrade (hedgeManagement env cfg px w) = openTrade w"
  by (simp add: hedgeManagement_def Let_def closeTrade_hedge_openTrade sendTradeAlert_def
      split: option.splits)

text \<open>The hedge section appends only records of the hedge, closed by its stop.\<close>

lemma hedgeManagement_trades:
  "\<exists>hs. trades (hedgeManagement env cfg px w) = trades w @ hs
        \<and> (\<forall>r \<in> set hs. tradeType r = THedge \<and> closeReason r = HEDGE_SL_HIT)"
proof (cases "hedgeTrade w")
  case None
  then show ?thesis by (simp add: hedgeManagement_def)
next
  case (Some h)
  have *: "\<exists>hs. trades (snd (closeTrade env HEDGE_SL_HIT px THedge v)) = trades v @ hs
        \<and> (\<forall>r \<in> set hs. tradeType r = THedge \<and> closeReason r = HEDGE_SL_HIT)" for v
  proof (cases "hedgeTrade v")
    case None
    then show ?thesis by (simp add: closeTrade_hedge_none)
  next
    case (Some h')
    from closeTrade_hedge_cases [OF this, of env HEDGE_SL_HIT px] show ?thesis
      by (auto simp: record_of_def)
  qed
  show ?thesis
    using Some * [of w]
      * [of "sendTradeAlert AInfo ''Hedge Stop Loss Activated'' (w\<lparr>hedgeTrade := Some
           (if side h = Long
            then h\<lparr>stopLossPrice := Some (entryPx h *
               (1 + (profit_percent (side h) (entryPx h) px - HEDGE_SL_PERCENT cfg) / 100))\<rparr>
            else h\<lparr>stopLossPrice := Some (entryPx h *
               (1 - (profit_percent (side h) (entryPx h) px - HEDGE_SL_PERCENT cfg) / 100))\<rparr>)\<rparr>)"]
    by (auto simp: hedgeManagement_def Let_def sendTradeAlert_def)
qed

text \<open>A hedge whose stop is set is left as it is, or closed with a record.\<close>

lemma hedgeManagement_stop_set:
  assumes "hedgeTrade w = Some h" and "truthy (stopLossPrice h)"
  shows "(hedgeTrade (hedgeManagement env cfg px w) = Some h
          \<and> trades (hedgeManagement env cfg px w) = trades w)
       \<or> (hedgeTrade (hedgeManagement env cfg px w) = None
          \<and> trades (hedgeManagement env cfg px w) = trades w @ [record_of h THedge HEDGE_SL_HIT px])"
  using assms closeTrade_hedge_cases [OF assms(1), of env HEDGE_SL_HIT px]
  by (auto simp: hedgeManagement_def Let_def)

lemma mainProtection_frame:
  "hedgeTrade (mainProtection cfg p w) = hedgeTrade w"
  "trades (mainProtection cfg p w) = trades w"
  by (simp_all add: mainProtection_def sendTradeAlert_def split: option.splits)

lemma mainProtection_openTrade:
  assumes "openTrade w = Some t"
  shows "\<exists>t'. openTrade (mainProtection cfg p w) = Some t'
           \<and> side t' = side t \<and> entryPx t' = entryPx t \<and> trade_size t' = trade_size t
           \<and> (truthy (stopLossPrice t) \<longrightarrow> stopLossPrice t' = stopLossPrice t)"
  using assms by (simp add: mainProtection_def sendTradeAlert_def)

lemma tradeManagement_exit:
  "tradeManagement env cfg px t w =
     mainExit env cfg px (profit_percent (side t) (entryPx t) px) (before_exit env cfg px t w)"
  by (simp add: tradeManagement_def before_exit_def Let_def trackExtremes_keeps)

lemma before_exit_openTrade:
  "\<exists>t'. openTrade (before_exit env cfg px t w) = Some t'
        \<and> side t' = side t \<and> entryPx t' = entryPx t \<and> trade_size t' = trade_size t
        \<and> (truthy (stopLossPrice t) \<longrightarrow> stopLossPrice t' = stopLossPrice t)"
proof -
  let ?t1 = "trackExtremes px t"
  let ?w3 = "hedgeManagement env cfg px
          (hedgingLogic env cfg px ?t1 (profit_percent (side t) (entryPx t) px)
             (w\<lparr>openTrade := Some ?t1\<rparr>))"
  have "openTrade ?w3 = Some ?t1"
    by (simp add: hedgeManagement_openTrade hedgingLogic_frame)
  from mainProtection_openTrade [OF this, of cfg "profit_percent (side t) (entryPx t) px"]
  show ?thesis
    by (simp add: before_exit_def trackExtremes_keeps)
qed

lemma before_exit_trades:
  "\<exists>hs. trades (before_exit env cfg px t w) = trades w @ hs
        \<and> (\<forall>r \<in> set hs. tradeType r = THedge \<and> closeReason r = HEDGE_SL_HIT)"
proof -
  let ?w2 = "hedgingLogic env cfg px (trackExtremes px t)
             (profit_percent (side t) (entryPx t) px) (w\<lparr>openTrade := Some (trackExtremes px t)\<rparr>)"
  obtain hs where "trades (hedgeManagement env cfg px ?w2) = trades ?w2 @ hs"
    "\<forall>r \<in> set hs. tradeType r = THedge \<and> closeReason r = HEDGE_SL_HIT"
    using hedgeManagement_trades by blast
  then show ?thesis
    by (simp add: before_exit_def mainProtection_frame hedgingLogic_frame)
qed

text \<open>A hedge whose stop is set, through the sections before the exit tests.\<close>

lemma before_exit_hedge_stop_set:
  assumes "hedgeTrade w = Some h" and "truthy (stopLossPrice h)"
  shows "(hedgeTrade (before_exit env cfg px t w) = Some h
          \<and> trades (before_exit env cfg px t w) = trades w)
       \<or> (hedgeTrade (before_exit env cfg px t w) = None
          \<and> trades (before_exit env cfg px t w) = trades w @ [record_of h THedge HEDGE_SL_HIT px])"
proof -
  let ?w1 = "w\<lparr>openTrade := Some (trackExtremes px t)\<rparr>"
  let ?p = "profit_percent (side t) (entryPx t) px"
  have h1: "hedgeTrade ?w1 = Some h"
    using assms(1) by simp
  then have "hedgingLogic env cfg px (trackExtremes px t) ?p ?w1 = ?w1"
    by (simp add: hedgingLogic_hedged)
  with hedgeManagement_stop_set [OF h1 assms(2), of env cfg px] show ?thesis
    by (simp add: before_exit_def mainProtection_frame)
qed

lemma tradeEntry_frame:
  "hedgeTrade (tradeEntry env symb cfg ob w) = hedgeTrade w"
  "trades (tradeEntry env symb cfg ob w) = trades w"
  by (simp_all add: tradeEntry_def Let_def placeOrder_def sendTradeAlert_def
      split: option.splits)

text \<open>The exit tests leave the state, or end in a close of the main trade for the take
  profit or for the stop.\<close>

lemma mainExit_cases:
  "mainExit env cfg px p w = w
   \<or> mainExit env cfg px p w = snd (closeTrade env MAIN_TP_50 px TMain w)
   \<or> (\<not> p \<ge> MAIN_TP_PERCENT cfg
      \<and> mainExit env cfg px p w = snd (closeTrade env MAIN_SL_HIT px TMain w))"
  by (simp add: mainExit_def split: option.splits)

text \<open>A summary of a close of the main trade in the terms of the counts.\<close>

lemma closeTrade_main_summary:
  assumes "openTrade w = Some t"
  shows "(openTrade (snd (closeTrade env reason px TMain w)) = Some t
          \<and> hedgeTrade (snd (closeTrade env reason px TMain w)) = hedgeTrade w
          \<and> trades (snd (closeTrade env reason px TMain w)) = trades w
          \<and> \<not> orders_succeed env)
       \<or> (openTrade (snd (closeTrade env reason px TMain w)) = None
          \<and> (\<exists>ms. trades (snd (closeTrade env reason px TMain w))
                      = trades w @ record_of t TMain reason px # ms
                \<and> (\<forall>r \<in> set ms. tradeType r = THedge \<and> closeReason r = MAIN_CLOSED)
                \<and> (ms = [] \<longrightarrow>
                      hedgeTrade (snd (closeTrade env reason px TMain w)) = hedgeTrade w)
                \<and> (orders_succeed env \<longrightarrow>
                      hedgeTrade (snd (closeTrade env reason px TMain w)) = None)))"
  using closeTrade_main_cases [OF assms, of env reason px]
  by (auto simp: record_of_def)

lemma tick_management:
  assumes "openTrade w = Some t"
  shows "mainLoop_symbol env symb cfg (Some ob) w =
           mainExit env cfg (lastPx ob) (profit_percent (side t) (entryPx t) (lastPx ob))
             (before_exit env cfg (lastPx ob) t (gridManagement cfg (lastPx ob) w))"
  using assms
  by (simp add: mainLoop_symbol_def Let_def gridManagement_frame tradeManagement_exit)

lemma tick_entry:
  assumes "openTrade w = None"
  shows "mainLoop_symbol env symb cfg (Some ob) w =
           tradeEntry env symb cfg ob (gridManagement cfg (lastPx ob) w)"
  using assms by (simp add: mainLoop_symbol_def Let_def gridManagement_frame)

lemma tick_trades:
  "\<exists>ms. trades (mainLoop_symbol env symb cfg obs w) = trades w @ ms"
proof (cases obs)
  case None
  then show ?thesis by (simp add: mainLoop_symbol_def)
next
  case (Some ob)
  show ?thesis
  proof (cases "openTrade w")
    case None
    then show ?thesis
      using Some by (simp add: tick_entry tradeEntry_frame gridManagement_frame)
  next
    case (Some t)
    let ?wb = "before_exit env cfg (lastPx ob) t (gridManagement cfg (lastPx ob) w)"
    obtain hs where hs: "trades ?wb = trades w @ hs"
      using before_exit_trades [of env cfg "lastPx ob" t "gridManagement cfg (lastPx ob) w"]
      by (auto simp: gridManagement_frame)
    obtain tb where tb: "openTrade ?wb = Some tb"
      using before_exit_openTrade by blast
    have "\<exists>ms. trades (snd (closeTrade env reason (lastPx ob) TMain ?wb)) = trades ?wb @ ms"
      for reason
      using closeTrade_main_summary [OF tb, of env reason "lastPx ob"] by auto
    then have "\<exists>ms. trades (mainExit env cfg (lastPx ob) p ?wb) = trades ?wb @ ms" for p
      using mainExit_cases [of env cfg "lastPx ob" p ?wb] by (metis append_Nil2)
    then show ?thesis
      using \<open>obs = Some ob\<close> Some hs by (auto simp: tick_management)
  qed
qed

lemma tick_counts_mono:
  "main_closes w \<le> main_closes (mainLoop_symbol env symb cfg obs w)"
  "hedge_closes w \<le> hedge_closes (mainLoop_symbol env symb cfg obs w)"
  using tick_trades [of env symb cfg obs w]
  by (auto simp: main_closes_def hedge_closes_def)

lemma run_ticks_Cons:
  "run_ticks env symb cfg w (obs # obss) =
     run_ticks env symb cfg (mainLoop_symbol env symb cfg obs w) obss"
  by (simp add: run_ticks_def)

lemma run_counts_mono:
  "main_closes w \<le> main_closes (run_ticks env symb cfg w obss)
   \<and> hedge_closes w \<le> hedge_closes (run_ticks env symb cfg w obss)"
proof (induction obss arbitrary: w)
  case Nil
  then show ?case by (simp add: run_ticks_def)
next
  case (Cons obs obss)
  from Cons [of "mainLoop_symbol env symb cfg obs w"]
    tick_counts_mono [of w env symb cfg obs]
  show ?case by (simp add: run_ticks_Cons)
qed

section \<open>Take profit before stop loss\<close>

text \<open>
  Claim C3 as stated fails when the exchange rejects the close order: a main long
  position from 100 at price 150 has reached the take profit of 50 percent, but with live
  trading and an exchange that rejects the order the position stays open, no trade is
  recorded and the alert "Close main Failed" is sent.
\<close>

theorem take_profit_rejected_counterexample:
  "profit_percent (side long_100) (entryPx long_100) 150 \<ge> MAIN_TP_PERCENT BTCUSDT_config
   \<and> map_option entryPx
        (openTrade (mainLoop_symbol rejecting_env ''BTCUSDT'' BTCUSDT_config (price_only 150)
                      long_world)) = Some 100
   \<and> trades (mainLoop_symbol rejecting_env ''BTCUSDT'' BTCUSDT_config (price_only 150)
                long_world) = []
   \<and> alerts (mainLoop_symbol rejecting_env ''BTCUSDT'' BTCUSDT_config (price_only 150)
                long_world)
       = [(AGridmove, ''Grid Updated''), (AInfo, ''Main Stop Loss Updated''),
          (AError, ''Close main Failed'')]"
  by code_simp

text \<open>
  Claim C3, amended. Take a tick for a symbol with an open main position (entry price not
  zero) in which the profit has reached \<open>MAIN_TP_PERCENT\<close>; let \<open>wb\<close> be the state in which
  the exit tests are made and \<open>w'\<close> the state after the tick. The tick ends with the one call
  of \<open>closeTrade\<close> for the main position with the take-profit reason, and records no trade
  with the reason of the main stop loss: the stop-loss test is skipped. The close order
  of the main position is the next request after \<open>wb\<close>. When it is accepted, or not sent
  (demo mode), the main position is closed and recorded with the take-profit reason at
  the last price, and in live trading the accepted order is in the log. When it is
  rejected, the position stays open with its side, entry price and size, nothing is
  recorded for it (the tick has recorded at most hedges closed by their own stop), and
  the state after the tick is \<open>wb\<close> with the rejected order and the alert "Close main
  Failed" logged.
\<close>

theorem take_profit_first:
  fixes env symb cfg ob w t
  defines "wb \<equiv> before_exit env cfg (lastPx ob) t (gridManagement cfg (lastPx ob) w)"
    and "w' \<equiv> mainLoop_symbol env symb cfg (Some ob) w"
  assumes "openTrade w = Some t" and "entryPx t \<noteq> 0"
    and "profit_percent (side t) (entryPx t) (lastPx ob) \<ge> MAIN_TP_PERCENT cfg"
  shows "w' = snd (closeTrade env MAIN_TP_50 (lastPx ob) TMain wb)
       \<and> (\<forall>r \<in> set (new_trades w w'). closeReason r \<noteq> MAIN_SL_HIT)
       \<and> (\<not> isRealTrade env \<or> accept env (length (requests wb)) \<longrightarrow>
            openTrade w' = None
            \<and> (\<exists>r \<in> set (new_trades w w').
                  tradeType r = TMain \<and> closeReason r = MAIN_TP_50
                  \<and> exitPrice r = lastPx ob)
            \<and> (\<exists>rs. requests w' =
                  requests wb @ (if isRealTrade env then [(close_request t, True)] else []) @ rs))
       \<and> (isRealTrade env \<and> \<not> accept env (length (requests wb)) \<longrightarrow>
            (\<exists>t'. openTrade w' = Some t' \<and> side t' = side t \<and> entryPx t' = entryPx t
                  \<and> trade_size t' = trade_size t)
            \<and> (\<forall>r \<in> set (new_trades w w').
                  tradeType r = THedge \<and> closeReason r = HEDGE_SL_HIT)
            \<and> w' = wb\<lparr>requests := requests wb @ [(close_request t, False)],
                       alerts := alerts wb @ [(AError, ''Close main Failed'')]\<rparr>)"
proof -
  let ?px = "lastPx ob"
  have w': "w' = snd (closeTrade env MAIN_TP_50 ?px TMain wb)"
    using assms(5) unfolding w'_def wb_def
    by (simp add: tick_management [OF assms(3)] mainExit_def)
  obtain hs where hs: "trades wb = trades w @ hs"
    "\<forall>r \<in> set hs. tradeType r = THedge \<and> closeReason r = HEDGE_SL_HIT"
    using before_exit_trades [of env cfg ?px t "gridManagement cfg ?px w"]
    unfolding wb_def by (auto simp: gridManagement_frame)
  obtain tb where tb: "openTrade wb = Some tb" "side tb = side t" "entryPx tb = entryPx t"
    "trade_size tb = trade_size t"
    using before_exit_openTrade [of env cfg ?px t "gridManagement cfg ?px w"]
    unfolding wb_def by blast
  have rq: "close_request tb = close_request t"
    using tb by (simp add: close_request_def)
  have acc: "openTrade w' = None
            \<and> (\<exists>r \<in> set (new_trades w w').
                  tradeType r = TMain \<and> closeReason r = MAIN_TP_50
                  \<and> exitPrice r = lastPx ob)
            \<and> (\<exists>rs. requests w' =
                  requests wb @ (if isRealTrade env then [(close_request t, True)] else []) @ rs)
            \<and> (\<forall>r \<in> set (new_trades w w'). closeReason r \<noteq> MAIN_SL_HIT)"
    if "\<not> isRealTrade env \<or> accept env (length (requests wb))"
  proof -
    from closeTrade_main_accepted [OF tb(1) that, of MAIN_TP_50 ?px]
    obtain ms rs where "openTrade w' = None"
      "trades w' = trades wb @ record_of tb TMain MAIN_TP_50 ?px # ms"
      "\<forall>r \<in> set ms. tradeType r = THedge \<and> closeReason r = MAIN_CLOSED"
      "requests w' =
         requests wb @ (if isRealTrade env then [(close_request tb, True)] else []) @ rs"
      unfolding w' by blast
    then show ?thesis
      using hs rq by (auto simp: new_trades_def record_of_def)
  qed
  have rej: "(\<exists>t'. openTrade w' = Some t' \<and> side t' = side t \<and> entryPx t' = entryPx t
                  \<and> trade_size t' = trade_size t)
            \<and> (\<forall>r \<in> set (new_trades w w').
                  tradeType r = THedge \<and> closeReason r = HEDGE_SL_HIT)
            \<and> w' = wb\<lparr>requests := requests wb @ [(close_request t, False)],
                       alerts := alerts wb @ [(AError, ''Close main Failed'')]\<rparr>"
    if "isRealTrade env" "\<not> accept env (length (requests wb))"
  proof -
    have e: "w' = wb\<lparr>requests := requests wb @ [(close_request t, False)],
                       alerts := alerts wb @ [(AError, ''Close main Failed'')]\<rparr>"
      unfolding w' using closeTrade_main_rejected [OF tb(1) that, of MAIN_TP_50 ?px] rq
      by simp
    have "openTrade w' = Some tb" "trades w' = trades w @ hs"
      by (subst e, simp add: tb hs)+
    then show ?thesis
      using e tb hs by (simp add: new_trades_def)
  qed
  have sl: "\<forall>r \<in> set (new_trades w w'). closeReason r \<noteq> MAIN_SL_HIT"
  proof (cases "\<not> isRealTrade env \<or> accept env (length (requests wb))")
    case True
    from acc [OF this] show ?thesis by blast
  next
    case False
    then have "isRealTrade env" "\<not> accept env (length (requests wb))" by auto
    from rej [OF this] show ?thesis by auto
  qed
  have acc': "\<not> isRealTrade env \<or> accept env (length (requests wb)) \<longrightarrow>
            openTrade w' = None
            \<and> (\<exists>r \<in> set (new_trades w w').
                  tradeType r = TMain \<and> closeReason r = MAIN_TP_50
                  \<and> exitPrice r = lastPx ob)
            \<and> (\<exists>rs. requests w' =
                  requests wb @ (if isRealTrade env then [(close_request t, True)] else []) @ rs)"
  proof
    assume "\<not> isRealTrade env \<or> accept env (length (requests wb))"
    from acc [OF this] show "openTrade w' = None
            \<and> (\<exists>r \<in> set (new_trades w w').
                  tradeType r = TMain \<and> closeReason r = MAIN_TP_50
                  \<and> exitPrice r = lastPx ob)
            \<and> (\<exists>rs. requests w' =
                  requests wb @ (if isRealTrade env then [(close_request t, True)] else []) @ rs)"
      by simp
  qed
  have rej': "isRealTrade env \<and> \<not> accept env (length (requests wb)) \<longrightarrow>
            (\<exists>t'. openTrade w' = Some t' \<and> side t' = side t \<and> entryPx t' = entryPx t
                  \<and> trade_size t' = trade_size t)
            \<and> (\<forall>r \<in> set (new_trades w w').
                  tradeType r = THedge \<and> closeReason r = HEDGE_SL_HIT)
            \<and> w' = wb\<lparr>requests := requests wb @ [(close_request t, False)],
                       alerts := alerts wb @ [(AError, ''Close main Failed'')]\<rparr>"
  proof
    assume "isRealTrade env \<and> \<not> accept env (length (requests wb))"
    then have "isRealTrade env" "\<not> accept env (length (requests wb))"
      by simp_all
    then show "(\<exists>t'. openTrade w' = Some t' \<and> side t' = side t \<and> entryPx t' = entryPx t
                  \<and> trade_size t' = trade_size t)
            \<and> (\<forall>r \<in> set (new_trades w w').
                  tradeType r = THedge \<and> closeReason r = HEDGE_SL_HIT)
            \<and> w' = wb\<lparr>requests := requests wb @ [(close_request t, False)],
                       alerts := alerts wb @ [(AError, ''Close main Failed'')]\<rparr>"
      by (rule rej)
  qed
  show ?thesis
    by (rule conjI [OF w' conjI [OF sl conjI [OF acc' rej']]])
qed

theorem take_profit_first_witness:
  "openTrade (mainLoop_symbol demo_env ''BTCUSDT'' BTCUSDT_config (price_only 150) long_world)
     = None
   \<and> map (\<lambda>r. (tradeType r, closeReason r, exitPrice r))
       (trades (mainLoop_symbol demo_env ''BTCUSDT'' BTCUSDT_config (price_only 150)
                  long_world))
     = [(TMain, MAIN_TP_50, 150)]
   \<and> map_option entryPx
       (openTrade (mainLoop_symbol rejecting_env ''BTCUSDT'' BTCUSDT_config (price_only 150)
                  long_world))
     = Some 100"
proof -
  have a: "openTrade long_world = Some long_100" "entryPx long_100 \<noteq> 0"
    "profit_percent (side long_100) (entryPx long_100) (lastPx \<lparr>lastPx = 150, signal = None\<rparr>)
      \<ge> MAIN_TP_PERCENT BTCUSDT_config"
    by (simp_all add: long_world_def loadSymbolState_def long_100_def profit_percent_def
        BTCUSDT_config_def)
  have t: "map (\<lambda>r. (tradeType r, closeReason r, exitPrice r))
       (trades (mainLoop_symbol demo_env ''BTCUSDT'' BTCUSDT_config (price_only 150)
                  long_world))
     = [(TMain, MAIN_TP_50, 150)]"
    by code_simp
  have d: "\<not> isRealTrade demo_env"
    by (simp add: demo_env_def)
  have r: "isRealTrade rejecting_env" "\<not> accept rejecting_env k" for k
    by (simp_all add: rejecting_env_def)
  note take_profit_first [OF a, where env = demo_env and symb = "''BTCUSDT''",
      THEN conjunct2, THEN conjunct2, THEN conjunct1]
    take_profit_first [OF a, where env = rejecting_env and symb = "''BTCUSDT''",
      THEN conjunct2, THEN conjunct2, THEN conjunct2]
  with d r t show ?thesis
    by (auto simp: price_only_def long_100_def)
qed

section \<open>Stop-loss prices stay fixed\<close>

lemma tick_main_stop:
  assumes "openTrade w = Some t" and "truthy (stopLossPrice t)"
    and "main_closes (mainLoop_symbol env symb cfg obs w) = main_closes w"
  shows "\<exists>t'. openTrade (mainLoop_symbol env symb cfg obs w) = Some t'
           \<and> stopLossPrice t' = stopLossPrice t"
proof (cases obs)
  case None
  then show ?thesis using assms by (simp add: mainLoop_symbol_def)
next
  case (Some ob)
  let ?px = "lastPx ob"
  let ?p = "profit_percent (side t) (entryPx t) ?px"
  let ?wb = "before_exit env cfg ?px t (gridManagement cfg ?px w)"
  have w': "mainLoop_symbol env symb cfg obs w = mainExit env cfg ?px ?p ?wb"
    using Some by (simp add: tick_management [OF assms(1)])
  obtain hs where hs: "trades ?wb = trades w @ hs"
    "\<forall>r \<in> set hs. tradeType r = THedge \<and> closeReason r = HEDGE_SL_HIT"
    using before_exit_trades [of env cfg ?px t "gridManagement cfg ?px w"]
    by (auto simp: gridManagement_frame)
  have mb: "main_closes ?wb = main_closes w"
    using hs by (simp add: main_closes_def)
  obtain tb where tb: "openTrade ?wb = Some tb" "stopLossPrice tb = stopLossPrice t"
    using before_exit_openTrade [of env cfg ?px t "gridManagement cfg ?px w"] assms(2)
    by auto
  have close: "\<exists>t'. openTrade (snd (closeTrade env reason ?px TMain ?wb)) = Some t'
           \<and> stopLossPrice t' = stopLossPrice t"
    if "main_closes (snd (closeTrade env reason ?px TMain ?wb)) = main_closes w" for reason
    using closeTrade_main_summary [OF tb(1), of env reason ?px] that mb tb(2)
    by (auto simp: main_closes_def record_of_def)
  from mainExit_cases [of env cfg ?px ?p ?wb] show ?thesis
    using assms(3) tb close unfolding w' by auto
qed

lemma tick_hedge_stop:
  assumes "hedgeTrade w = Some h" and "truthy (stopLossPrice h)"
    and "hedge_closes (mainLoop_symbol env symb cfg obs w) = hedge_closes w"
  shows "hedgeTrade (mainLoop_symbol env symb cfg obs w) = Some h"
proof (cases obs)
  case None
  then show ?thesis using assms by (simp add: mainLoop_symbol_def)
next
  case (Some ob)
  let ?px = "lastPx ob"
  show ?thesis
  proof (cases "openTrade w")
    case None
    then show ?thesis
      using Some assms(1) by (simp add: tick_entry tradeEntry_frame gridManagement_frame)
  next
    case (Some t)
    let ?p = "profit_percent (side t) (entryPx t) ?px"
    let ?w0 = "gridManagement cfg ?px w"
    let ?wb = "before_exit env cfg ?px t ?w0"
    have w': "mainLoop_symbol env symb cfg obs w = mainExit env cfg ?px ?p ?wb"
      using \<open>obs = Some ob\<close> by (simp add: tick_management [OF Some])
    have h0: "hedgeTrade ?w0 = Some h"
      using assms(1) by (simp add: gridManagement_frame)
    have mono: "hedge_closes ?wb \<le> hedge_closes (mainExit env cfg ?px ?p ?wb)"
    proof -
      obtain tb where tb: "openTrade ?wb = Some tb"
        using before_exit_openTrade by blast
      have "hedge_closes ?wb \<le> hedge_closes (snd (closeTrade env reason ?px TMain ?wb))"
        for reason
        using closeTrade_main_summary [OF tb, of env reason ?px]
        by (auto simp: hedge_closes_def)
      then show ?thesis
        using mainExit_cases [of env cfg ?px ?p ?wb] by auto
    qed
    from before_exit_hedge_stop_set [OF h0 assms(2), of env cfg ?px t]
    consider (kept) "hedgeTrade ?wb = Some h" "trades ?wb = trades w"
      | (closed) "trades ?wb = trades w @ [record_of h THedge HEDGE_SL_HIT ?px]"
      by (auto simp: gridManagement_frame)
    then show ?thesis
    proof cases
      case closed
      then have "hedge_closes ?wb = hedge_closes w + 1"
        by (simp add: hedge_closes_def record_of_def)
      with mono assms(3) show ?thesis
        unfolding w' by simp
    next
      case kept
      obtain tb where tb: "openTrade ?wb = Some tb"
        using before_exit_openTrade by blast
      have hb: "hedge_closes ?wb = hedge_closes w"
        using kept(2) by (simp add: hedge_closes_def)
      have close: "hedgeTrade (snd (closeTrade env reason ?px TMain ?wb)) = Some h"
        if "hedge_closes (snd (closeTrade env reason ?px TMain ?wb)) = hedge_closes w"
        for reason
        using closeTrade_main_cases [OF tb, of env reason ?px] that hb kept(1)
        by (auto simp: hedge_closes_def record_of_def)
      from mainExit_cases [of env cfg ?px ?p ?wb] show ?thesis
        using assms(3) kept(1) close unfolding w' by auto
    qed
  qed
qed

lemma stops_kept:
  "(openTrade w = Some t \<and> truthy (stopLossPrice t)
      \<and> main_closes (run_ticks env symb cfg w obss) = main_closes w
    \<longrightarrow> (\<exists>t'. openTrade (run_ticks env symb cfg w obss) = Some t'
           \<and> stopLossPrice t' = stopLossPrice t))
   \<and> (hedgeTrade w = Some h \<and> truthy (stopLossPrice h)
      \<and> hedge_closes (run_ticks env symb cfg w obss) = hedge_closes w
    \<longrightarrow> hedgeTrade (run_ticks env symb cfg w obss) = Some h)"
proof (induction obss arbitrary: w t)
  case Nil
  then show ?case by (simp add: run_ticks_def)
next
  case (Cons obs obss)
  let ?w1 = "mainLoop_symbol env symb cfg obs w"
  let ?w' = "run_ticks env symb cfg ?w1 obss"
  have run: "run_ticks env symb cfg w (obs # obss) = ?w'"
    by (rule run_ticks_Cons)
  have m1: "main_closes w \<le> main_closes ?w1" and h1: "hedge_closes w \<le> hedge_closes ?w1"
    by (rule tick_counts_mono)+
  have m2: "main_closes ?w1 \<le> main_closes ?w'" and h2: "hedge_closes ?w1 \<le> hedge_closes ?w'"
    using run_counts_mono [of ?w1 env symb cfg obss] by simp_all
  have main: "\<exists>t'. openTrade ?w' = Some t' \<and> stopLossPrice t' = stopLossPrice t"
    if a: "openTrade w = Some t" "truthy (stopLossPrice t)" "main_closes ?w' = main_closes w"
  proof -
    from a(3) m1 m2 have e: "main_closes ?w1 = main_closes w" "main_closes ?w' = main_closes ?w1"
      by simp_all
    from tick_main_stop [OF a(1) a(2) e(1)] obtain t1
      where t1: "openTrade ?w1 = Some t1" "stopLossPrice t1 = stopLossPrice t"
      by blast
    with Cons [of ?w1 t1] a(2) e(2) show ?thesis by simp
  qed
  have hedge: "hedgeTrade ?w' = Some h"
    if a: "hedgeTrade w = Some h" "truthy (stopLossPrice h)" "hedge_closes ?w' = hedge_closes w"
  proof -
    from a(3) h1 h2 have e: "hedge_closes ?w1 = hedge_closes w"
      "hedge_closes ?w' = hedge_closes ?w1"
      by simp_all
    from tick_hedge_stop [OF a(1) a(2) e(1)] have "hedgeTrade ?w1 = Some h" .
    with Cons [of ?w1] a(2) e(2) show ?thesis by simp
  qed
  from main hedge show ?case
    unfolding run by blast
qed

lemma mainProtection_openTrade_eq:
  assumes "openTrade w = Some t"
  shows "openTrade (mainProtection cfg p w) =
           Some (if p > MAIN_PROTECTION_START cfg \<and> \<not> truthy (stopLossPrice t)
                 then (if side t = Long
                       then t\<lparr>stopLossPrice := Some (entryPx t *
                              (1 + MAIN_PROTECTION_PERCENT cfg / 100))\<rparr>
                       else t\<lparr>stopLossPrice := Some (entryPx t *
                              (1 - MAIN_PROTECTION_PERCENT cfg / 100))\<rparr>)
                 else t)"
  using assms by (simp add: mainProtection_def sendTradeAlert_def)

lemma mainExit_openTrade:
  assumes "openTrade w = Some t"
  shows "openTrade (mainExit env cfg px p w) = Some t \<or> openTrade (mainExit env cfg px p w) = None"
proof -
  have "openTrade (snd (closeTrade env reason px TMain w)) = Some t
      \<or> openTrade (snd (closeTrade env reason px TMain w)) = None" for reason
    using closeTrade_main_summary [OF assms, of env reason px] by auto
  from this [of MAIN_TP_50] this [of MAIN_SL_HIT] show ?thesis
    using mainExit_cases [of env cfg px p w] assms by auto
qed

lemma mainExit_hedgeTrade:
  assumes "openTrade w = Some t"
  shows "hedgeTrade (mainExit env cfg px p w) = hedgeTrade w
       \<or> hedgeTrade (mainExit env cfg px p w) = None"
proof -
  have "hedgeTrade (snd (closeTrade env reason px TMain w)) = hedgeTrade w
      \<or> hedgeTrade (snd (closeTrade env reason px TMain w)) = None" for reason
    using closeTrade_main_cases [OF assms, of env reason px] by auto
  from this [of MAIN_TP_50] this [of MAIN_SL_HIT] show ?thesis
    using mainExit_cases [of env cfg px p w] by auto
qed

text \<open>The tick in which the profit of the main trade is above the start of protection.\<close>

lemma tick_main_attach:
  assumes "openTrade w = Some t" and "\<not> truthy (stopLossPrice t)"
    and "profit_percent (side t) (entryPx t) (lastPx ob) > MAIN_PROTECTION_START cfg"
    and "openTrade (mainLoop_symbol env symb cfg (Some ob) w) = Some t'"
  shows "stopLossPrice t' =
           Some (if side t = Long then entryPx t * (1 + MAIN_PROTECTION_PERCENT cfg / 100)
                 else entryPx t * (1 - MAIN_PROTECTION_PERCENT cfg / 100))"
proof -
  let ?px = "lastPx ob"
  let ?p = "profit_percent (side t) (entryPx t) ?px"
  let ?t1 = "trackExtremes ?px t"
  let ?w3 = "hedgeManagement env cfg ?px
          (hedgingLogic env cfg ?px ?t1 ?p ((gridManagement cfg ?px w)\<lparr>openTrade := Some ?t1\<rparr>))"
  let ?wb = "before_exit env cfg ?px t (gridManagement cfg ?px w)"
  have "openTrade ?w3 = Some ?t1"
    by (simp add: hedgeManagement_openTrade hedgingLogic_frame)
  from mainProtection_openTrade_eq [OF this, of cfg ?p]
  have "\<exists>tb. openTrade ?wb = Some tb \<and> stopLossPrice tb =
           Some (if side t = Long then entryPx t * (1 + MAIN_PROTECTION_PERCENT cfg / 100)
                 else entryPx t * (1 - MAIN_PROTECTION_PERCENT cfg / 100))"
    using assms(2,3) by (simp add: before_exit_def trackExtremes_keeps)
  then obtain tb where tb: "openTrade ?wb = Some tb" "stopLossPrice tb =
           Some (if side t = Long then entryPx t * (1 + MAIN_PROTECTION_PERCENT cfg / 100)
                 else entryPx t * (1 - MAIN_PROTECTION_PERCENT cfg / 100))"
    by blast
  from mainExit_openTrade [OF tb(1), of env cfg ?px ?p] assms(4) tb(2) show ?thesis
    by (simp add: tick_management [OF assms(1)])
qed

text \<open>The tick in which the profit of the hedge has reached its threshold.\<close>

lemma hedgeManagement_attach:
  assumes "hedgeTrade w = Some h" and "\<not> truthy (stopLossPrice h)"
    and "profit_percent (side h) (entryPx h) px \<ge> HEDGE_TP_PERCENT cfg"
  shows "hedgeTrade (hedgeManagement env cfg px w) = None
       \<or> hedgeTrade (hedgeManagement env cfg px w) =
           Some (h\<lparr>stopLossPrice := Some
             (if side h = Long
              then entryPx h * (1 + (profit_percent (side h) (entryPx h) px
                                       - HEDGE_SL_PERCENT cfg) / 100)
              else entryPx h * (1 - (profit_percent (side h) (entryPx h) px
                                       - HEDGE_SL_PERCENT cfg) / 100))\<rparr>)"
proof -
  let ?h1 = "h\<lparr>stopLossPrice := Some
             (if side h = Long
              then entryPx h * (1 + (profit_percent (side h) (entryPx h) px
                                       - HEDGE_SL_PERCENT cfg) / 100)
              else entryPx h * (1 - (profit_percent (side h) (entryPx h) px
                                       - HEDGE_SL_PERCENT cfg) / 100))\<rparr>"
  let ?w1 = "sendTradeAlert AInfo ''Hedge Stop Loss Activated'' (w\<lparr>hedgeTrade := Some ?h1\<rparr>)"
  have h1: "hedgeTrade ?w1 = Some ?h1"
    by (simp add: sendTradeAlert_def)
  have m: "hedgeManagement env cfg px w =
      (if stop_hit ?h1 px then snd (closeTrade env HEDGE_SL_HIT px THedge ?w1) else ?w1)"
    using assms by (cases "side h = Long") (simp_all add: hedgeManagement_def Let_def)
  from closeTrade_hedge_cases [OF h1, of env HEDGE_SL_HIT px] h1 show ?thesis
    unfolding m by auto
qed

lemma tick_hedge_attach:
  assumes "openTrade w = Some t" and "hedgeTrade w = Some h"
    and "\<not> truthy (stopLossPrice h)"
    and "profit_percent (side h) (entryPx h) (lastPx ob) \<ge> HEDGE_TP_PERCENT cfg"
    and "hedgeTrade (mainLoop_symbol env symb cfg (Some ob) w) = Some h'"
  shows "h' = h\<lparr>stopLossPrice := Some
             (if side h = Long
              then entryPx h * (1 + (profit_percent (side h) (entryPx h) (lastPx ob)
                                       - HEDGE_SL_PERCENT cfg) / 100)
              else entryPx h * (1 - (profit_percent (side h) (entryPx h) (lastPx ob)
                                       - HEDGE_SL_PERCENT cfg) / 100))\<rparr>"
proof -
  let ?px = "lastPx ob"
  let ?p = "profit_percent (side t) (entryPx t) ?px"
  let ?w1 = "(gridManagement cfg ?px w)\<lparr>openTrade := Some (trackExtremes ?px t)\<rparr>"
  let ?wb = "before_exit env cfg ?px t (gridManagement cfg ?px w)"
  have h1: "hedgeTrade ?w1 = Some h"
    using assms(2) by (simp add: gridManagement_frame)
  then have "hedgingLogic env cfg ?px (trackExtremes ?px t) ?p ?w1 = ?w1"
    by (simp add: hedgingLogic_hedged)
  then have hb: "hedgeTrade ?wb = hedgeTrade (hedgeManagement env cfg ?px ?w1)"
    by (simp add: before_exit_def mainProtection_frame)
  obtain tb where tb: "openTrade ?wb = Some tb"
    using before_exit_openTrade by blast
  from mainExit_hedgeTrade [OF tb, of env cfg ?px ?p]
    hedgeManagement_attach [OF h1 assms(3) assms(4), of env]
    assms(5)
  show ?thesis
    by (auto simp: tick_management [OF assms(1)] hb)
qed

text \<open>
  Claim C2. A stop-loss price that is set (\<open>stopLossPrice\<close> holds a number other than
  zero, which is how the code tests it) does not change over any run of ticks as long as
  the position exists, that is, as long as no record of a closed main trade, respectively
  of a closed hedge, has been added: after the run the main position has the same stop,
  and the hedge is the same as before. The stop of the main position is set in the tick
  in which its profit is above \<open>MAIN_PROTECTION_START\<close>, to the entry price moved by
  \<open>MAIN_PROTECTION_PERCENT\<close>; the stop of the hedge is set in the tick in which the hedge
  profit has reached \<open>HEDGE_TP_PERCENT\<close>, to the entry price moved by that profit less
  \<open>HEDGE_SL_PERCENT\<close>.
\<close>

theorem stop_loss_fixed:
  "(openTrade w = Some t \<and> truthy (stopLossPrice t)
      \<and> main_closes (run_ticks env symb cfg w obss) = main_closes w
    \<longrightarrow> (\<exists>t'. openTrade (run_ticks env symb cfg w obss) = Some t'
           \<and> stopLossPrice t' = stopLossPrice t))
   \<and> (hedgeTrade w = Some h \<and> truthy (stopLossPrice h)
      \<and> hedge_closes (run_ticks env symb cfg w obss) = hedge_closes w
    \<longrightarrow> hedgeTrade (run_ticks env symb cfg w obss) = Some h)
   \<and> (openTrade w = Some t \<and> \<not> truthy (stopLossPrice t) \<and> entryPx t \<noteq> 0
      \<and> profit_percent (side t) (entryPx t) (lastPx ob) > MAIN_PROTECTION_START cfg
      \<and> openTrade (mainLoop_symbol env symb cfg (Some ob) w) = Some t'
    \<longrightarrow> stopLossPrice t' =
           Some (if side t = Long then entryPx t * (1 + MAIN_PROTECTION_PERCENT cfg / 100)
                 else entryPx t * (1 - MAIN_PROTECTION_PERCENT cfg / 100)))
   \<and> (openTrade w = Some t \<and> hedgeTrade w = Some h \<and> \<not> truthy (stopLossPrice h)
      \<and> entryPx h \<noteq> 0
      \<and> profit_percent (side h) (entryPx h) (lastPx ob) \<ge> HEDGE_TP_PERCENT cfg
      \<and> hedgeTrade (mainLoop_symbol env symb cfg (Some ob) w) = Some h'
    \<longrightarrow> stopLossPrice h' =
           Some (if side h = Long
                 then entryPx h * (1 + (profit_percent (side h) (entryPx h) (lastPx ob)
                                          - HEDGE_SL_PERCENT cfg) / 100)
                 else entryPx h * (1 - (profit_percent (side h) (entryPx h) (lastPx ob)
                                          - HEDGE_SL_PERCENT cfg) / 100)))"
proof -
  have 4: "stopLossPrice h' =
           Some (if side h = Long
                 then entryPx h * (1 + (profit_percent (side h) (entryPx h) (lastPx ob)
                                          - HEDGE_SL_PERCENT cfg) / 100)
                 else entryPx h * (1 - (profit_percent (side h) (entryPx h) (lastPx ob)
                                          - HEDGE_SL_PERCENT cfg) / 100))"
    if "openTrade w = Some t" "hedgeTrade w = Some h" "\<not> truthy (stopLossPrice h)"
      "profit_percent (side h) (entryPx h) (lastPx ob) \<ge> HEDGE_TP_PERCENT cfg"
      "hedgeTrade (mainLoop_symbol env symb cfg (Some ob) w) = Some h'"
    using tick_hedge_attach [OF that] by simp
  from stops_kept [of w t env symb cfg obss h] tick_main_attach [of w t cfg ob env symb t'] 4
  show ?thesis by blast
qed

lemma protected_trade:
  "openTrade protected_world =
     Some \<lparr>side = Long, entryPx = 100, trade_size = 1, isHedge = False,
           stopLossPrice = Some 110, maxPrice = Some 121, minPrice = Some 100\<rparr>"
  by code_simp

lemma protected_closes:
  "main_closes (run_ticks demo_env ''BTCUSDT'' BTCUSDT_config protected_world
                  [price_only 125, price_only 118]) = main_closes protected_world"
  by code_simp

theorem stop_loss_fixed_witness:
  "map_option stopLossPrice (openTrade protected_world) = Some (Some 110)
   \<and> map_option stopLossPrice
       (openTrade (run_ticks demo_env ''BTCUSDT'' BTCUSDT_config protected_world
                     [price_only 125, price_only 118])) = Some (Some 110)"
  using stop_loss_fixed [of protected_world
      "\<lparr>side = Long, entryPx = 100, trade_size = 1, isHedge = False,
        stopLossPrice = Some 110, maxPrice = Some 121, minPrice = Some 100\<rparr>"
      demo_env "''BTCUSDT''" BTCUSDT_config "[price_only 125, price_only 118]"]
    protected_trade protected_closes
  by auto

section \<open>Main position and hedge\<close>

text \<open>While every order is accepted (or none is sent, in demo mode), a tick, and so a run
  of ticks, that starts without a hedge that lacks its main position ends without one.\<close>

lemma tick_invariant:
  assumes "orders_succeed env" and "hedge_has_main w"
  shows "hedge_has_main (mainLoop_symbol env symb cfg obs w)"
proof (cases obs)
  case None
  then show ?thesis using assms by (simp add: mainLoop_symbol_def)
next
  case (Some ob)
  let ?px = "lastPx ob"
  show ?thesis
  proof (cases "openTrade w")
    case None
    then have "hedgeTrade w = None"
      using assms(2) by (simp add: hedge_has_main_def)
    then show ?thesis
      using None Some
      by (simp add: tick_entry tradeEntry_frame gridManagement_frame hedge_has_main_def)
  next
    case (Some t)
    let ?p = "profit_percent (side t) (entryPx t) ?px"
    let ?wb = "before_exit env cfg ?px t (gridManagement cfg ?px w)"
    have w': "mainLoop_symbol env symb cfg obs w = mainExit env cfg ?px ?p ?wb"
      using \<open>obs = Some ob\<close> by (simp add: tick_management [OF Some])
    obtain tb where tb: "openTrade ?wb = Some tb"
      using before_exit_openTrade by blast
    have "hedge_has_main (snd (closeTrade env reason ?px TMain ?wb))" for reason
      using closeTrade_main_summary [OF tb, of env reason ?px] assms(1)
      by (auto simp: hedge_has_main_def)
    then show ?thesis
      using mainExit_cases [of env cfg ?px ?p ?wb] tb unfolding w'
      by (auto simp: hedge_has_main_def)
  qed
qed

lemma run_invariant:
  assumes "orders_succeed env"
  shows "hedge_has_main w \<Longrightarrow> hedge_has_main (run_ticks env symb cfg w obss)"
proof (induction obss arbitrary: w)
  case Nil
  then show ?case by (simp add: run_ticks_def)
next
  case (Cons obs obss)
  from Cons.IH [OF tick_invariant [OF assms Cons.prems]] show ?case
    by (simp add: run_ticks_Cons)
qed

text \<open>
  Claim C1 against the code, for any answers of the exchange: closing the main position,
  for any reason, in a state with a main position and a hedge. \<open>closeTrade\<close> sends the close order of the main
  position first, records the main trade and empties the main slot, and then calls itself
  for the hedge (the comment there: "Also close hedge if main is closing") without reading
  the result. So:
  in demo mode no order is sent, both trades are recorded, the main trade before the
  hedge (reason \<open>MAIN_CLOSED\<close>, same exit price), and both slots are empty;
  in live trading, when the close order of the main position is rejected, only the logs
  change;
  when both close orders are accepted, they are sent in the order main, hedge, the
  records are appended in that order and both slots are empty;
  when the close order of the main position is accepted and that of the hedge is
  rejected, the call returns true with the main trade recorded and its slot empty, and
  the hedge still open: a hedge without a main position, which the claim excludes.
\<close>

theorem close_main_with_hedge:
  assumes "openTrade w = Some t" and "hedgeTrade w = Some h"
  shows "(\<not> isRealTrade env \<longrightarrow>
            closeTrade env reason px TMain w =
              (True, w\<lparr>openTrade := None, hedgeTrade := None,
                        trades := trades w @ [record_of t TMain reason px,
                                              record_of h THedge MAIN_CLOSED px],
                        alerts := alerts w @ [(AClose, ''HEDGE Position Closed''),
                                              (AClose, ''MAIN Position Closed'')]\<rparr>))
       \<and> (isRealTrade env \<and> \<not> accept env (length (requests w)) \<longrightarrow>
            closeTrade env reason px TMain w =
              (False, w\<lparr>requests := requests w @ [(close_request t, False)],
                         alerts := alerts w @ [(AError, ''Close main Failed'')]\<rparr>))
       \<and> (isRealTrade env \<and> accept env (length (requests w))
            \<and> accept env (Suc (length (requests w))) \<longrightarrow>
            closeTrade env reason px TMain w =
              (True, w\<lparr>openTrade := None, hedgeTrade := None,
                        trades := trades w @ [record_of t TMain reason px,
                                              record_of h THedge MAIN_CLOSED px],
                        requests := requests w @ [(close_request t, True),
                                                  (close_request h, True)],
                        alerts := alerts w @ [(AClose, ''HEDGE Position Closed''),
                                              (AClose, ''MAIN Position Closed'')]\<rparr>))
       \<and> (isRealTrade env \<and> accept env (length (requests w))
            \<and> \<not> accept env (Suc (length (requests w))) \<longrightarrow>
            closeTrade env reason px TMain w =
              (True, w\<lparr>openTrade := None,
                        trades := trades w @ [record_of t TMain reason px],
                        requests := requests w @ [(close_request t, True),
                                                  (close_request h, False)],
                        alerts := alerts w @ [(AError, ''Close hedge Failed''),
                                              (AClose, ''MAIN Position Closed'')]\<rparr>))"
  using assms
  by (simp add: closeTrade_main closeTrade_hedge Let_def closeOrder_def placeOrder_def
      sendTradeAlert_def close_request_def)

theorem close_main_with_hedge_witness:
  "fst (closeTrade first_only_env MAIN_TP_50 150 TMain hedged_world)
   \<and> openTrade (snd (closeTrade first_only_env MAIN_TP_50 150 TMain hedged_world)) = None
   \<and> hedgeTrade (snd (closeTrade first_only_env MAIN_TP_50 150 TMain hedged_world))
       = Some hedge_92
   \<and> trades (snd (closeTrade first_only_env MAIN_TP_50 150 TMain hedged_world))
       = [record_of long_100 TMain MAIN_TP_50 150]
   \<and> requests (snd (closeTrade first_only_env MAIN_TP_50 150 TMain hedged_world))
       = [(\<lparr>order_side = SELL, qty = 1\<rparr>, True), (\<lparr>order_side = BUY, qty = 1\<rparr>, False)]
   \<and> alerts (snd (closeTrade first_only_env MAIN_TP_50 150 TMain hedged_world))
       = [(AError, ''Close hedge Failed''), (AClose, ''MAIN Position Closed'')]
   \<and> openTrade (snd (closeTrade accepting_env MAIN_TP_50 150 TMain hedged_world)) = None
   \<and> hedgeTrade (snd (closeTrade accepting_env MAIN_TP_50 150 TMain hedged_world)) = None
   \<and> trades (snd (closeTrade accepting_env MAIN_TP_50 150 TMain hedged_world))
       = [record_of long_100 TMain MAIN_TP_50 150, record_of hedge_92 THedge MAIN_CLOSED 150]
   \<and> requests (snd (closeTrade accepting_env MAIN_TP_50 150 TMain hedged_world))
       = [(\<lparr>order_side = SELL, qty = 1\<rparr>, True), (\<lparr>order_side = BUY, qty = 1\<rparr>, True)]
   \<and> openTrade (mainLoop_symbol first_only_env ''BTCUSDT'' BTCUSDT_config (price_only 150)
                  hedged_world) = None
   \<and> hedgeTrade (mainLoop_symbol first_only_env ''BTCUSDT'' BTCUSDT_config (price_only 150)
                  hedged_world) = Some hedge_92"
proof -
  have a: "openTrade hedged_world = Some long_100" "hedgeTrade hedged_world = Some hedge_92"
    "requests hedged_world = []" "alerts hedged_world = []" "trades hedged_world = []"
    by (simp_all add: hedged_world_def long_world_def loadSymbolState_def)
  have e: "isRealTrade first_only_env" "accept first_only_env 0"
    "\<not> accept first_only_env (Suc 0)"
    "isRealTrade accepting_env" "accept accepting_env k" for k
    by (simp_all add: first_only_env_def accepting_env_def)
  have t: "openTrade (mainLoop_symbol first_only_env ''BTCUSDT'' BTCUSDT_config (price_only 150)
                  hedged_world) = None"
    "hedgeTrade (mainLoop_symbol first_only_env ''BTCUSDT'' BTCUSDT_config (price_only 150)
                  hedged_world) = Some hedge_92"
    by code_simp+
  from close_main_with_hedge [OF a(1,2), of first_only_env MAIN_TP_50 150,
      THEN conjunct2, THEN conjunct2, THEN conjunct2]
    close_main_with_hedge [OF a(1,2), of accepting_env MAIN_TP_50 150,
      THEN conjunct2, THEN conjunct2, THEN conjunct1] a e t
  show ?thesis
    by (simp add: close_request_def long_100_def hedge_92_def)
qed

end
